theory Spec2Isabelle
  imports Main
begin

section \<open>JavaScript values and array primitives\<close>

text \<open>
  The table controllers are React components written in TypeScript.  Their pure parts
  (filter, comparator, page window, selection) are embedded as HOL functions; their
  state (the \<open>useState\<close> cells) as records; their event handlers and effects as
  functions from state to state; their backend calls as steps on an explicit store
  that also records every call issued.

  Numbers: the numeric row fields (scores, counts, revenues) are modelled as \<open>int\<close>;
  page numbers and page sizes as \<open>int\<close> as well, so that \<open>Array.prototype.slice\<close>
  can be given its full meaning for negative indices.
\<close>

datatype SortDirection = Asc | Desc

text \<open>A property value read dynamically from a row (\<open>a[sortField]\<close>).
  \<open>JUndefined\<close> stands for both \<open>undefined\<close> and \<open>null\<close>: every use in the source
  (\<open>?.\<close>, \<open>||\<close>) treats the two alike.\<close>

datatype jsval = JUndefined | JStr string | JNum int | JArr "string list"

definition of_str :: "string option \<Rightarrow> jsval" where
  "of_str x = (case x of None \<Rightarrow> JUndefined | Some s \<Rightarrow> JStr s)"

definition of_num :: "int option \<Rightarrow> jsval" where
  "of_num x = (case x of None \<Rightarrow> JUndefined | Some n \<Rightarrow> JNum n)"

definition of_arr :: "string list option \<Rightarrow> jsval" where
  "of_arr x = (case x of None \<Rightarrow> JUndefined | Some ts \<Rightarrow> JArr ts)"

text \<open>Truthiness: \<open>undefined\<close>, \<open>null\<close>, \<open>''\<close> and \<open>0\<close> are falsy, an array never is.\<close>

fun truthy :: "jsval \<Rightarrow> bool" where
  "truthy JUndefined = False"
| "truthy (JStr s) = (s \<noteq> [])"
| "truthy (JNum n) = (n \<noteq> 0)"
| "truthy (JArr ts) = True"

text \<open>\<open>v || ''\<close>\<close>

definition or_empty :: "jsval \<Rightarrow> jsval" where
  "or_empty v = (if truthy v then v else JStr [])"

text \<open>Decimal rendering of a number, as \<open>Number.prototype.toString\<close> gives for integers.\<close>

definition digit_char :: "nat \<Rightarrow> char" where
  "digit_char d = ''0123456789'' ! d"

fun nat_toString :: "nat \<Rightarrow> string" where
  "nat_toString n = (if n < 10 then [digit_char n]
     else nat_toString (n div 10) @ [digit_char (n mod 10)])"

declare nat_toString.simps [simp del]

definition int_toString :: "int \<Rightarrow> string" where
  "int_toString i = (if i < 0 then CHR ''-'' # nat_toString (nat (- i)) else nat_toString (nat i))"

text \<open>\<open>Array.prototype.join(sep)\<close>; \<open>toString\<close> of an array joins with a comma.\<close>

fun js_join :: "string \<Rightarrow> string list \<Rightarrow> string" where
  "js_join sep [] = []"
| "js_join sep [t] = t"
| "js_join sep (t # u # ts) = t @ sep @ js_join sep (u # ts)"

fun js_toString :: "jsval \<Rightarrow> string" where
  "js_toString JUndefined = ''undefined''"
| "js_toString (JStr s) = s"
| "js_toString (JNum n) = int_toString n"
| "js_toString (JArr ts) = js_join '','' ts"

text \<open>\<open>String.prototype.toLowerCase\<close>, on the ASCII letters.\<close>

definition lower_char :: "char \<Rightarrow> char" where
  "lower_char c = (let n = (of_char c :: nat) in
     if 65 \<le> n \<and> n \<le> 90 then char_of (n + 32) else c)"

definition toLowerCase :: "string \<Rightarrow> string" where
  "toLowerCase s = map lower_char s"

text \<open>\<open>String.prototype.includes\<close>: \<open>t\<close> occurs in \<open>s\<close> as a contiguous substring.\<close>

fun str_includes :: "string \<Rightarrow> string \<Rightarrow> bool" where
  "str_includes [] t = (t = [])"
| "str_includes (c # cs) t = (take (length t) (c # cs) = t \<or> str_includes cs t)"

text \<open>\<open>x?.toLowerCase().includes(s)\<close>: falsy when the field is missing.\<close>

definition opt_includes :: "string option \<Rightarrow> string \<Rightarrow> bool" where
  "opt_includes x s = (case x of None \<Rightarrow> False | Some v \<Rightarrow> str_includes (toLowerCase v) s)"

text \<open>\<open>Array.prototype.slice(start, stop)\<close>: a negative index counts from the end,
  every index is clamped to the array, an empty range gives the empty array.\<close>

definition js_slice :: "'a list \<Rightarrow> int \<Rightarrow> int \<Rightarrow> 'a list" where
  "js_slice xs start stop =
     (let len = int (length xs);
          k = (if start < 0 then max (len + start) 0 else min start len);
          fin = (if stop < 0 then max (len + stop) 0 else min stop len)
      in take (nat (fin - k)) (drop (nat k) xs))"

text \<open>\<open>Array.prototype.sort(cmp)\<close>.  The engine's sort is stable; it is modelled as the
  stable insertion sort, which is what every stable sort computes when the comparator
  is consistent.  The comparator returns a number; only its sign is used.\<close>

fun js_insert :: "('a \<Rightarrow> 'a \<Rightarrow> int) \<Rightarrow> 'a \<Rightarrow> 'a list \<Rightarrow> 'a list" where
  "js_insert cmp x [] = [x]"
| "js_insert cmp x (y # ys) = (if cmp x y \<le> 0 then x # y # ys else y # js_insert cmp x ys)"

definition js_sort :: "('a \<Rightarrow> 'a \<Rightarrow> int) \<Rightarrow> 'a list \<Rightarrow> 'a list" where
  "js_sort cmp xs = foldr (js_insert cmp) xs []"

text \<open>The relational operators \<open><\<close> and \<open>>\<close> on two strings compare code units
  lexicographically.\<close>

fun str_lt :: "string \<Rightarrow> string \<Rightarrow> bool" where
  "str_lt [] [] = False"
| "str_lt [] (d # t) = True"
| "str_lt (c # s) [] = False"
| "str_lt (c # s) (d # t) =
     ((of_char c :: nat) < of_char d \<or> ((of_char c :: nat) = of_char d \<and> str_lt s t))"

text \<open>A stand-in for \<open>String.prototype.localeCompare\<close> where a concrete collation is
  needed to run an example: code-unit order, as \<open>-1\<close>, \<open>0\<close> or \<open>1\<close>.  The comparators
  below take the collation as a parameter \<open>lc\<close>.\<close>

definition codeunit_compare :: "string \<Rightarrow> string \<Rightarrow> int" where
  "codeunit_compare s t = (if str_lt s t then - 1 else if str_lt t s then 1 else 0)"

section \<open>ContactTable\<close>

text \<open>\<open>interface Contact\<close> of \<open>src/components/ContactTable.tsx\<close>.  The selectors carry
  the prefix \<open>c_\<close>, since the row types of the other tables have fields of the same names.\<close>

record contact =
  c_id :: string
  c_contact_name :: string
  c_company_name :: "string option"
  c_account_id :: "string option"
  c_account_company_name :: "string option"
  c_position :: "string option"
  c_email :: "string option"
  c_phone_no :: "string option"
  c_mobile_no :: "string option"
  c_region :: "string option"
  c_city :: "string option"
  c_state :: "string option"
  c_contact_owner :: "string option"
  c_created_time :: "string option"
  c_modified_time :: "string option"
  c_lead_status :: "string option"
  c_industry :: "string option"
  c_contact_source :: "string option"
  c_linkedin :: "string option"
  c_website :: "string option"
  c_description :: "string option"
  c_annual_revenue :: "int option"
  c_no_of_employees :: "int option"
  c_created_by :: "string option"
  c_modified_by :: "string option"
  c_tags :: "string list option"
  c_score :: "int option"
  c_segment :: "string option"
  c_email_opens :: "int option"
  c_email_clicks :: "int option"
  c_engagement_score :: "int option"
  c_last_contacted_at :: "string option"

text \<open>\<open>a[sortField as keyof Contact]\<close>: the property of that name, \<open>undefined\<close> for a
  name that is no property.\<close>

definition contact_get :: "contact \<Rightarrow> string \<Rightarrow> jsval" where
  "contact_get c f =
    (if f = ''id'' then JStr (c_id c)
     else if f = ''contact_name'' then JStr (c_contact_name c)
     else if f = ''company_name'' then of_str (c_company_name c)
     else if f = ''account_id'' then of_str (c_account_id c)
     else if f = ''account_company_name'' then of_str (c_account_company_name c)
     else if f = ''position'' then of_str (c_position c)
     else if f = ''email'' then of_str (c_email c)
     else if f = ''phone_no'' then of_str (c_phone_no c)
     else if f = ''mobile_no'' then of_str (c_mobile_no c)
     else if f = ''region'' then of_str (c_region c)
     else if f = ''city'' then of_str (c_city c)
     else if f = ''state'' then of_str (c_state c)
     else if f = ''contact_owner'' then of_str (c_contact_owner c)
     else if f = ''created_time'' then of_str (c_created_time c)
     else if f = ''modified_time'' then of_str (c_modified_time c)
     else if f = ''lead_status'' then of_str (c_lead_status c)
     else if f = ''industry'' then of_str (c_industry c)
     else if f = ''contact_source'' then of_str (c_contact_source c)
     else if f = ''linkedin'' then of_str (c_linkedin c)
     else if f = ''website'' then of_str (c_website c)
     else if f = ''description'' then of_str (c_description c)
     else if f = ''annual_revenue'' then of_num (c_annual_revenue c)
     else if f = ''no_of_employees'' then of_num (c_no_of_employees c)
     else if f = ''created_by'' then of_str (c_created_by c)
     else if f = ''modified_by'' then of_str (c_modified_by c)
     else if f = ''tags'' then of_arr (c_tags c)
     else if f = ''score'' then of_num (c_score c)
     else if f = ''segment'' then of_str (c_segment c)
     else if f = ''email_opens'' then of_num (c_email_opens c)
     else if f = ''email_clicks'' then of_num (c_email_clicks c)
     else if f = ''engagement_score'' then of_num (c_engagement_score c)
     else if f = ''last_contacted_at'' then of_str (c_last_contacted_at c)
     else JUndefined)"

text \<open>The search predicate of the filter effect (lines 259-272).\<close>

definition contact_matches_search :: "string \<Rightarrow> contact \<Rightarrow> bool" where
  "contact_matches_search searchLower c =
    (str_includes (toLowerCase (c_contact_name c)) searchLower \<or>
     opt_includes (c_company_name c) searchLower \<or>
     opt_includes (c_account_company_name c) searchLower \<or>
     opt_includes (c_email c) searchLower \<or>
     opt_includes (c_phone_no c) searchLower \<or>
     opt_includes (c_linkedin c) searchLower \<or>
     opt_includes (c_website c) searchLower \<or>
     opt_includes (c_industry c) searchLower \<or>
     opt_includes (c_region c) searchLower \<or>
     opt_includes (c_description c) searchLower \<or>
     opt_includes (c_position c) searchLower \<or>
     (case c_tags c of None \<Rightarrow> False
      | Some ts \<Rightarrow> list_ex (\<lambda>tag. str_includes (toLowerCase tag) searchLower) ts))"

text \<open>The comparator handed to \<open>filtered.sort\<close> (lines 298-308).  Two numbers are
  subtracted; anything else is compared as strings by \<open>localeCompare\<close>.\<close>

definition contact_compare ::
  "(string \<Rightarrow> string \<Rightarrow> int) \<Rightarrow> string \<Rightarrow> SortDirection \<Rightarrow> contact \<Rightarrow> contact \<Rightarrow> int" where
  "contact_compare lc f dir a b =
    (let aValue = or_empty (contact_get a f);
         bValue = or_empty (contact_get b f)
     in case (aValue, bValue) of
          (JNum x, JNum y) \<Rightarrow> (if dir = Asc then x - y else y - x)
        | _ \<Rightarrow> (let comparison = lc (js_toString aValue) (js_toString bValue)
                in if dir = Asc then comparison else - comparison))"

text \<open>A toast: title and description.\<close>

type_synonym toast = "string \<times> string"

text \<open>The \<open>useState\<close> cells of \<open>ContactTable\<close> that the filter effect, the page window
  and the selection read or write, with the \<open>selectedContacts\<close> prop.  \<open>ct_contactsGen\<close>
  is the identity of the \<open>contacts\<close> array: every \<open>setContacts\<close> stores a new array, which
  an effect's dependency check tells from the old one even when the rows are equal.\<close>

record contact_table =
  ct_contacts :: "contact list"
  ct_contactsGen :: nat
  ct_filteredContacts :: "contact list"
  ct_loading :: bool
  ct_searchTerm :: string
  ct_debouncedSearchTerm :: string
  ct_sourceFilter :: string
  ct_ownerFilter :: string
  ct_segmentFilter :: string
  ct_tagFilter :: "string option"
  ct_currentPage :: int
  ct_itemsPerPage :: int
  ct_sortField :: "string option"
  ct_sortDirection :: SortDirection
  ct_isBulkDeleting :: bool
  ct_selectedContacts :: "string list"
  ct_toasts :: "toast list"

text \<open>The state of the first render (\<open>sourceParam\<close> absent).\<close>

definition ct_init :: contact_table where
  "ct_init = \<lparr> ct_contacts = [], ct_contactsGen = 0, ct_filteredContacts = [],
     ct_loading = True, ct_searchTerm = [], ct_debouncedSearchTerm = [],
     ct_sourceFilter = ''all'', ct_ownerFilter = ''all'', ct_segmentFilter = ''all'',
     ct_tagFilter = None, ct_currentPage = 1, ct_itemsPerPage = 25, ct_sortField = None,
     ct_sortDirection = Asc, ct_isBulkDeleting = False, ct_selectedContacts = [],
     ct_toasts = [] \<rparr>"

text \<open>The array the filter effect computes (lines 258-309): search, then the four
  dropdown filters, then the sort.\<close>

definition ct_filtered :: "(string \<Rightarrow> string \<Rightarrow> int) \<Rightarrow> contact_table \<Rightarrow> contact list" where
  "ct_filtered lc s =
    (let searchLower = toLowerCase (ct_debouncedSearchTerm s);
         f0 = filter (contact_matches_search searchLower) (ct_contacts s);
         f1 = (if ct_sourceFilter s \<noteq> [] \<and> ct_sourceFilter s \<noteq> ''all''
               then filter (\<lambda>c. case c_contact_source c of None \<Rightarrow> False
                                | Some v \<Rightarrow> toLowerCase v = toLowerCase (ct_sourceFilter s)) f0
               else f0);
         f2 = (if ct_ownerFilter s \<noteq> [] \<and> ct_ownerFilter s \<noteq> ''all''
               then filter (\<lambda>c. c_contact_owner c = Some (ct_ownerFilter s)) f1 else f1);
         f3 = (if ct_segmentFilter s \<noteq> [] \<and> ct_segmentFilter s \<noteq> ''all''
               then filter (\<lambda>c. c_segment c = Some (ct_segmentFilter s)) f2 else f2);
         f4 = (case ct_tagFilter s of
                 None \<Rightarrow> f3
               | Some t \<Rightarrow> if t = [] then f3
                   else filter (\<lambda>c. case c_tags c of None \<Rightarrow> False | Some ts \<Rightarrow> t \<in> set ts) f3)
     in case ct_sortField s of
          None \<Rightarrow> f4
        | Some f \<Rightarrow> if f = [] then f4 else js_sort (contact_compare lc f (ct_sortDirection s)) f4)"

text \<open>The effect body: \<open>setFilteredContacts(filtered); setCurrentPage(1)\<close>.\<close>

definition ct_filter_effect :: "(string \<Rightarrow> string \<Rightarrow> int) \<Rightarrow> contact_table \<Rightarrow> contact_table" where
  "ct_filter_effect lc s = s\<lparr> ct_filteredContacts := ct_filtered lc s, ct_currentPage := 1 \<rparr>"

text \<open>The effect's dependency array (line 313), as compared between two renders.\<close>

definition ct_deps_changed :: "contact_table \<Rightarrow> contact_table \<Rightarrow> bool" where
  "ct_deps_changed prev next =
    (ct_contactsGen next \<noteq> ct_contactsGen prev \<or>
     ct_debouncedSearchTerm next \<noteq> ct_debouncedSearchTerm prev \<or>
     ct_sourceFilter next \<noteq> ct_sourceFilter prev \<or>
     ct_ownerFilter next \<noteq> ct_ownerFilter prev \<or>
     ct_segmentFilter next \<noteq> ct_segmentFilter prev \<or>
     ct_tagFilter next \<noteq> ct_tagFilter prev \<or>
     ct_sortField next \<noteq> ct_sortField prev \<or>
     ct_sortDirection next \<noteq> ct_sortDirection prev)"

text \<open>One commit: a handler has turned the state \<open>prev\<close> into \<open>next\<close>; the component
  renders again and React runs the filter effect when one of its dependencies changed.\<close>

definition ct_commit :: "(string \<Rightarrow> string \<Rightarrow> int) \<Rightarrow> contact_table \<Rightarrow> contact_table \<Rightarrow> contact_table" where
  "ct_commit lc prev next = (if ct_deps_changed prev next then ct_filter_effect lc next else next)"

text \<open>\<open>setContacts(rows)\<close>, at the end of a successful fetch.\<close>

definition ct_setContacts :: "contact list \<Rightarrow> contact_table \<Rightarrow> contact_table" where
  "ct_setContacts rows s =
     s\<lparr> ct_contacts := rows, ct_contactsGen := Suc (ct_contactsGen s), ct_loading := False \<rparr>"

text \<open>The debounce timer firing, 300 ms after the last keystroke:
  \<open>setDebouncedSearchTerm(searchTerm)\<close>.\<close>

definition ct_debounceElapsed :: "contact_table \<Rightarrow> contact_table" where
  "ct_debounceElapsed s = s\<lparr> ct_debouncedSearchTerm := ct_searchTerm s \<rparr>"

text \<open>The setters the search box, the three selects and the tag badge are wired to.\<close>

definition ct_setSearchTerm :: "string \<Rightarrow> contact_table \<Rightarrow> contact_table" where
  "ct_setSearchTerm v s = s\<lparr> ct_searchTerm := v \<rparr>"

definition ct_setSourceFilter :: "string \<Rightarrow> contact_table \<Rightarrow> contact_table" where
  "ct_setSourceFilter v s = s\<lparr> ct_sourceFilter := v \<rparr>"

definition ct_setOwnerFilter :: "string \<Rightarrow> contact_table \<Rightarrow> contact_table" where
  "ct_setOwnerFilter v s = s\<lparr> ct_ownerFilter := v \<rparr>"

definition ct_setSegmentFilter :: "string \<Rightarrow> contact_table \<Rightarrow> contact_table" where
  "ct_setSegmentFilter v s = s\<lparr> ct_segmentFilter := v \<rparr>"

definition ct_setTagFilter :: "string option \<Rightarrow> contact_table \<Rightarrow> contact_table" where
  "ct_setTagFilter v s = s\<lparr> ct_tagFilter := v \<rparr>"

text \<open>\<open>handleSort\<close> (lines 315-322).\<close>

definition ct_handleSort :: "string \<Rightarrow> contact_table \<Rightarrow> contact_table" where
  "ct_handleSort field s =
    (if ct_sortField s = Some field
     then s\<lparr> ct_sortDirection := (if ct_sortDirection s = Asc then Desc else Asc) \<rparr>
     else s\<lparr> ct_sortField := Some field, ct_sortDirection := Asc \<rparr>)"

text \<open>The page window (lines 463-465).  \<open>Math.ceil(length / itemsPerPage)\<close> is given for the
  positive page sizes, the only ones \<open>PAGE_SIZE_OPTIONS\<close> offers.\<close>

definition PAGE_SIZE_OPTIONS :: "int list" where
  "PAGE_SIZE_OPTIONS = [10, 25, 50, 100]"

definition ceil_div :: "int \<Rightarrow> int \<Rightarrow> int" where
  "ceil_div n d = - ((- n) div d)"

definition ct_totalPages :: "contact_table \<Rightarrow> int" where
  "ct_totalPages s = ceil_div (int (length (ct_filteredContacts s))) (ct_itemsPerPage s)"

definition ct_startIndex :: "contact_table \<Rightarrow> int" where
  "ct_startIndex s = (ct_currentPage s - 1) * ct_itemsPerPage s"

definition ct_pageContacts :: "contact_table \<Rightarrow> contact list" where
  "ct_pageContacts s =
     js_slice (ct_filteredContacts s) (ct_startIndex s) (ct_startIndex s + ct_itemsPerPage s)"

definition ct_previousPage :: "contact_table \<Rightarrow> contact_table" where
  "ct_previousPage s = s\<lparr> ct_currentPage := max 1 (ct_currentPage s - 1) \<rparr>"

definition ct_nextPage :: "contact_table \<Rightarrow> contact_table" where
  "ct_nextPage s = s\<lparr> ct_currentPage := min (ct_totalPages s) (ct_currentPage s + 1) \<rparr>"

text \<open>The page-size selector: \<open>setItemsPerPage(Number(val))\<close> (line 594).\<close>

definition ct_setItemsPerPage :: "int \<Rightarrow> contact_table \<Rightarrow> contact_table" where
  "ct_setItemsPerPage n s = s\<lparr> ct_itemsPerPage := n \<rparr>"


definition ct_handleSelectContact :: "string \<Rightarrow> bool \<Rightarrow> contact_table \<Rightarrow> contact_table" where
  "ct_handleSelectContact contactId checked s =
    (if checked
     then s\<lparr> ct_selectedContacts := ct_selectedContacts s @ [contactId] \<rparr>
     else s\<lparr> ct_selectedContacts := filter (\<lambda>i. i \<noteq> contactId) (ct_selectedContacts s) \<rparr>)"

text \<open>The \<open>checked\<close> prop of the header checkbox (line 616).\<close>

definition ct_headerChecked :: "contact_table \<Rightarrow> bool" where
  "ct_headerChecked s =
    (length (ct_selectedContacts s) > 0 \<and>
     int (length (ct_selectedContacts s)) = min (int (length (ct_pageContacts s))) 50)"

section \<open>Meetings\<close>

text \<open>\<open>interface Meeting\<close> of \<open>src/pages/Meetings.tsx\<close> (without \<open>attendees\<close>, which the
  controller never reads).\<close>

record meeting =
  m_id :: string
  m_subject :: string
  m_description :: "string option"
  m_start_time :: string
  m_end_time :: string
  m_join_url :: "string option"
  m_lead_id :: "string option"
  m_contact_id :: "string option"
  m_created_by :: "string option"
  m_created_at :: "string option"
  m_status :: string
  m_outcome :: "string option"
  m_notes :: "string option"
  m_lead_name :: "string option"
  m_contact_name :: "string option"

datatype SortColumn = Subject | Date | Time | LeadContact | Status

text \<open>What the page takes from outside the reviewed sources: \<open>getMeetingStatus\<close> of
  \<open>@/utils/meetingStatus\<close>, and the local-time reading of a timestamp by \<open>Date\<close>:
  \<open>new Date(t).setHours(0, 0, 0, 0)\<close> and \<open>getHours() * 60 + getMinutes()\<close>.\<close>

record meetings_env =
  getMeetingStatus :: "meeting \<Rightarrow> string"
  localMidnight :: "string \<Rightarrow> int"
  localMinutes :: "string \<Rightarrow> int"

text \<open>\<open><\<close> on the two sort keys, which are both strings or both numbers.\<close>

fun js_lt :: "jsval \<Rightarrow> jsval \<Rightarrow> bool" where
  "js_lt (JStr s) (JStr t) = str_lt s t"
| "js_lt (JNum x) (JNum y) = (x < y)"
| "js_lt a b = False"

text \<open>\<open>x || y || ''\<close> on two optional strings.\<close>

definition first_truthy :: "string option \<Rightarrow> string option \<Rightarrow> string" where
  "first_truthy x y =
    (case x of Some s \<Rightarrow> (if s \<noteq> [] then s else (case y of Some t \<Rightarrow> t | None \<Rightarrow> []))
     | None \<Rightarrow> (case y of Some t \<Rightarrow> t | None \<Rightarrow> []))"

text \<open>The sort key of the \<open>switch\<close> (lines 213-236).\<close>

fun meeting_sort_key :: "meetings_env \<Rightarrow> SortColumn \<Rightarrow> meeting \<Rightarrow> jsval" where
  "meeting_sort_key env Subject a = JStr (toLowerCase (m_subject a))"
| "meeting_sort_key env Date a = JNum (localMidnight env (m_start_time a))"
| "meeting_sort_key env Time a = JNum (localMinutes env (m_start_time a))"
| "meeting_sort_key env LeadContact a =
     JStr (toLowerCase (first_truthy (m_lead_name a) (m_contact_name a)))"
| "meeting_sort_key env Status a = JStr (getMeetingStatus env a)"

definition meeting_compare ::
  "meetings_env \<Rightarrow> SortColumn \<Rightarrow> SortDirection \<Rightarrow> meeting \<Rightarrow> meeting \<Rightarrow> int" where
  "meeting_compare env col dir a b =
    (let aValue = meeting_sort_key env col a; bValue = meeting_sort_key env col b
     in if js_lt aValue bValue then (if dir = Asc then - 1 else 1)
        else if js_lt bValue aValue then (if dir = Asc then 1 else - 1)
        else 0)"

record meetings_page =
  mt_meetings :: "meeting list"
  mt_meetingsGen :: nat
  mt_filteredMeetings :: "meeting list"
  mt_loading :: bool
  mt_searchTerm :: string
  mt_selectedMeetings :: "string list"
  mt_statusFilter :: string
  mt_organizerFilter :: string
  mt_sortColumn :: "SortColumn option"
  mt_sortDirection :: SortDirection
  mt_currentPage :: int
  mt_toasts :: "toast list"

definition ITEMS_PER_PAGE :: int where
  "ITEMS_PER_PAGE = 25"

text \<open>The state of the first render (no \<open>status\<close> in the URL).\<close>

definition mt_init :: meetings_page where
  "mt_init = \<lparr> mt_meetings = [], mt_meetingsGen = 0, mt_filteredMeetings = [],
     mt_loading = True, mt_searchTerm = [], mt_selectedMeetings = [],
     mt_statusFilter = ''all'', mt_organizerFilter = ''all'', mt_sortColumn = None,
     mt_sortDirection = Asc, mt_currentPage = 1, mt_toasts = [] \<rparr>"

definition meeting_matches :: "meetings_env \<Rightarrow> meetings_page \<Rightarrow> meeting \<Rightarrow> bool" where
  "meeting_matches env s m =
    (let term = toLowerCase (mt_searchTerm s);
         matchesSearch = (str_includes (toLowerCase (m_subject m)) term \<or>
                          opt_includes (m_lead_name m) term \<or>
                          opt_includes (m_contact_name m) term);
         matchesStatus = (mt_statusFilter s = ''all'' \<or> getMeetingStatus env m = mt_statusFilter s);
         matchesOrganizer = (mt_organizerFilter s = ''all'' \<or>
                             m_created_by m = Some (mt_organizerFilter s))
     in matchesSearch \<and> matchesStatus \<and> matchesOrganizer)"

text \<open>\<open>sortedAndFilteredMeetings\<close> (lines 200-243).\<close>

definition sortedAndFilteredMeetings :: "meetings_env \<Rightarrow> meetings_page \<Rightarrow> meeting list" where
  "sortedAndFilteredMeetings env s =
    (let filtered = filter (meeting_matches env s) (mt_meetings s)
     in case mt_sortColumn s of
          None \<Rightarrow> filtered
        | Some col \<Rightarrow> js_sort (meeting_compare env col (mt_sortDirection s)) filtered)"

text \<open>The memo is recomputed, and so is a new array, when one of its dependencies changed
  (line 243); the effect of lines 245-248 depends on that array.\<close>

definition mt_deps_changed :: "meetings_page \<Rightarrow> meetings_page \<Rightarrow> bool" where
  "mt_deps_changed prev next =
    (mt_meetingsGen next \<noteq> mt_meetingsGen prev \<or>
     mt_searchTerm next \<noteq> mt_searchTerm prev \<or>
     mt_statusFilter next \<noteq> mt_statusFilter prev \<or>
     mt_organizerFilter next \<noteq> mt_organizerFilter prev \<or>
     mt_sortColumn next \<noteq> mt_sortColumn prev \<or>
     mt_sortDirection next \<noteq> mt_sortDirection prev)"

definition mt_filter_effect :: "meetings_env \<Rightarrow> meetings_page \<Rightarrow> meetings_page" where
  "mt_filter_effect env s =
     s\<lparr> mt_filteredMeetings := sortedAndFilteredMeetings env s, mt_currentPage := 1 \<rparr>"

definition mt_commit :: "meetings_env \<Rightarrow> meetings_page \<Rightarrow> meetings_page \<Rightarrow> meetings_page" where
  "mt_commit env prev next = (if mt_deps_changed prev next then mt_filter_effect env next else next)"

definition mt_setSearchTerm :: "string \<Rightarrow> meetings_page \<Rightarrow> meetings_page" where
  "mt_setSearchTerm v s = s\<lparr> mt_searchTerm := v \<rparr>"

definition mt_setStatusFilter :: "string \<Rightarrow> meetings_page \<Rightarrow> meetings_page" where
  "mt_setStatusFilter v s = s\<lparr> mt_statusFilter := v \<rparr>"

definition mt_setOrganizerFilter :: "string \<Rightarrow> meetings_page \<Rightarrow> meetings_page" where
  "mt_setOrganizerFilter v s = s\<lparr> mt_organizerFilter := v \<rparr>"

text \<open>\<open>handleSort\<close> (lines 184-191); the argument may be \<open>null\<close>, as the type allows.\<close>

definition mt_handleSort :: "SortColumn option \<Rightarrow> meetings_page \<Rightarrow> meetings_page" where
  "mt_handleSort column s =
    (if mt_sortColumn s = column
     then s\<lparr> mt_sortDirection := (if mt_sortDirection s = Asc then Desc else Asc) \<rparr>
     else s\<lparr> mt_sortColumn := column, mt_sortDirection := Asc \<rparr>)"

definition paginatedMeetings :: "meetings_page \<Rightarrow> meeting list" where
  "paginatedMeetings s =
    (let startIndex = (mt_currentPage s - 1) * ITEMS_PER_PAGE
     in js_slice (mt_filteredMeetings s) startIndex (startIndex + ITEMS_PER_PAGE))"


definition mt_handleSelectMeeting :: "string \<Rightarrow> bool \<Rightarrow> meetings_page \<Rightarrow> meetings_page" where
  "mt_handleSelectMeeting meetingId checked s =
    (if checked then s\<lparr> mt_selectedMeetings := mt_selectedMeetings s @ [meetingId] \<rparr>
     else s\<lparr> mt_selectedMeetings := filter (\<lambda>i. i \<noteq> meetingId) (mt_selectedMeetings s) \<rparr>)"

definition isAllSelected :: "meetings_page \<Rightarrow> bool" where
  "isAllSelected s =
    (length (paginatedMeetings s) > 0 \<and>
     list_all (\<lambda>m. m_id m \<in> set (mt_selectedMeetings s)) (paginatedMeetings s))"

section \<open>ListView (deals)\<close>

text \<open>The type \<open>Deal\<close> is declared in \<open>@/types/deal\<close>, outside the reviewed sources; the
  record holds the fields \<open>src/components/ListView.tsx\<close> reads by name.\<close>

record deal =
  d_id :: string
  d_deal_name :: "string option"
  d_project_name :: "string option"
  d_lead_name :: "string option"
  d_customer_name :: "string option"
  d_region :: "string option"
  d_lead_owner :: "string option"
  d_stage :: string
  d_priority :: "int option"
  d_probability :: "int option"
  d_handoff_status :: "string option"
  d_project_duration :: "int option"
  d_total_contract_value :: "int option"
  d_total_revenue :: "int option"
  d_expected_closing_date :: "string option"
  d_start_date :: "string option"
  d_end_date :: "string option"
  d_created_at :: "string option"
  d_modified_at :: "string option"
  d_proposal_due_date :: "string option"

definition deal_get :: "deal \<Rightarrow> string \<Rightarrow> jsval" where
  "deal_get d f =
    (if f = ''id'' then JStr (d_id d)
     else if f = ''deal_name'' then of_str (d_deal_name d)
     else if f = ''project_name'' then of_str (d_project_name d)
     else if f = ''lead_name'' then of_str (d_lead_name d)
     else if f = ''customer_name'' then of_str (d_customer_name d)
     else if f = ''region'' then of_str (d_region d)
     else if f = ''lead_owner'' then of_str (d_lead_owner d)
     else if f = ''stage'' then JStr (d_stage d)
     else if f = ''priority'' then of_num (d_priority d)
     else if f = ''probability'' then of_num (d_probability d)
     else if f = ''handoff_status'' then of_str (d_handoff_status d)
     else if f = ''project_duration'' then of_num (d_project_duration d)
     else if f = ''total_contract_value'' then of_num (d_total_contract_value d)
     else if f = ''total_revenue'' then of_num (d_total_revenue d)
     else if f = ''expected_closing_date'' then of_str (d_expected_closing_date d)
     else if f = ''start_date'' then of_str (d_start_date d)
     else if f = ''end_date'' then of_str (d_end_date d)
     else if f = ''created_at'' then of_str (d_created_at d)
     else if f = ''modified_at'' then of_str (d_modified_at d)
     else if f = ''proposal_due_date'' then of_str (d_proposal_due_date d)
     else JUndefined)"

text \<open>\<open>AdvancedFilterState\<close>, as the initial value of \<open>filters\<close> spells it out.\<close>

record advanced_filter =
  af_stages :: "string list"
  af_regions :: "string list"
  af_leadOwners :: "string list"
  af_priorities :: "string list"
  af_probabilities :: "string list"
  af_handoffStatuses :: "string list"
  af_searchTerm :: string
  af_probabilityRange :: "int \<times> int"

text \<open>\<open>selectedDeals\<close> is a \<open>Set<string>\<close>.  \<open>lv_filtersGen\<close> is the identity of the
  \<open>filters\<close> object, new at every \<open>setFilters\<close>.  \<open>lv_deleteRequests\<close> collects the calls of
  the \<open>onDeleteDeals\<close> prop.\<close>

record list_view =
  lv_deals :: "deal list"
  lv_searchTerm :: string
  lv_leadOwnerFilter :: string
  lv_filters :: advanced_filter
  lv_filtersGen :: nat
  lv_sortBy :: string
  lv_sortOrder :: SortDirection
  lv_selectedDeals :: "string set"
  lv_currentPage :: int
  lv_itemsPerPage :: int
  lv_toasts :: "toast list"
  lv_deleteRequests :: "string set list"

text \<open>\<open>v || 0\<close> and \<open>String(v || '')\<close> on an optional number, \<open>v || ''\<close> on an optional
  string.\<close>

definition or_zero :: "jsval \<Rightarrow> jsval" where
  "or_zero v = (if truthy v then v else JNum 0)"

definition num_or_empty_string :: "int option \<Rightarrow> string" where
  "num_or_empty_string x = js_toString (or_empty (of_num x))"

definition str_or_empty :: "string option \<Rightarrow> string" where
  "str_or_empty x = (case x of None \<Rightarrow> [] | Some v \<Rightarrow> v)"

definition probability_or_zero :: "int option \<Rightarrow> int" where
  "probability_or_zero x = (case x of None \<Rightarrow> 0 | Some v \<Rightarrow> v)"

text \<open>The filter predicate (lines 364-391).\<close>

definition deal_matches :: "list_view \<Rightarrow> deal \<Rightarrow> bool" where
  "deal_matches s d =
    (let filters = lv_filters s;
         allSearchTerms = toLowerCase
           (js_join '' '' (filter (\<lambda>t. t \<noteq> []) [lv_searchTerm s, af_searchTerm filters]));
         matchesSearch = (allSearchTerms = [] \<or>
            opt_includes (d_deal_name d) allSearchTerms \<or>
            opt_includes (d_project_name d) allSearchTerms \<or>
            opt_includes (d_lead_name d) allSearchTerms \<or>
            opt_includes (d_customer_name d) allSearchTerms \<or>
            opt_includes (d_region d) allSearchTerms);
         matchesLeadOwnerDropdown =
           (lv_leadOwnerFilter s = ''all'' \<or> d_lead_owner d = Some (lv_leadOwnerFilter s));
         matchesStages = (length (af_stages filters) = 0 \<or> d_stage d \<in> set (af_stages filters));
         matchesRegions = (length (af_regions filters) = 0 \<or>
            str_or_empty (d_region d) \<in> set (af_regions filters));
         matchesLeadOwners = (length (af_leadOwners filters) = 0 \<or>
            str_or_empty (d_lead_owner d) \<in> set (af_leadOwners filters));
         matchesPriorities = (length (af_priorities filters) = 0 \<or>
            num_or_empty_string (d_priority d) \<in> set (af_priorities filters));
         matchesProbabilities = (length (af_probabilities filters) = 0 \<or>
            num_or_empty_string (d_probability d) \<in> set (af_probabilities filters));
         matchesHandoffStatuses = (length (af_handoffStatuses filters) = 0 \<or>
            str_or_empty (d_handoff_status d) \<in> set (af_handoffStatuses filters));
         dealProbability = probability_or_zero (d_probability d);
         matchesProbabilityRange = (dealProbability \<ge> fst (af_probabilityRange filters) \<and>
            dealProbability \<le> snd (af_probabilityRange filters))
     in matchesSearch \<and> matchesLeadOwnerDropdown \<and> matchesStages \<and> matchesRegions \<and>
        matchesLeadOwners \<and> matchesPriorities \<and> matchesProbabilities \<and>
        matchesHandoffStatuses \<and> matchesProbabilityRange)"

text \<open>The sort key (lines 396-412).  \<open>parseDate\<close> is the epoch-millisecond value of
  \<open>new Date(string)\<close>; \<open>new Date(0)\<close> is \<open>0\<close>.\<close>

definition deal_sort_key :: "(string \<Rightarrow> int) \<Rightarrow> string \<Rightarrow> deal \<Rightarrow> jsval" where
  "deal_sort_key parseDate sortBy d =
    (if sortBy \<in> set [''priority'', ''probability'', ''project_duration'']
     then or_zero (deal_get d sortBy)
     else if sortBy \<in> set [''total_contract_value'', ''total_revenue'']
     then or_zero (deal_get d sortBy)
     else if sortBy \<in> set [''expected_closing_date'', ''start_date'', ''end_date'',
                             ''created_at'', ''modified_at'', ''proposal_due_date'']
     then JNum (case deal_get d sortBy of JStr v \<Rightarrow> parseDate v | _ \<Rightarrow> 0)
     else JStr (toLowerCase (js_toString (or_empty (deal_get d sortBy)))))"

definition deal_compare ::
  "(string \<Rightarrow> int) \<Rightarrow> string \<Rightarrow> SortDirection \<Rightarrow> deal \<Rightarrow> deal \<Rightarrow> int" where
  "deal_compare parseDate sortBy sortOrder a b =
    (let aValue = deal_sort_key parseDate sortBy a; bValue = deal_sort_key parseDate sortBy b
     in if sortOrder = Asc
        then (if js_lt aValue bValue then - 1 else if js_lt bValue aValue then 1 else 0)
        else (if js_lt bValue aValue then - 1 else if js_lt aValue bValue then 1 else 0))"

definition filteredAndSortedDeals :: "(string \<Rightarrow> int) \<Rightarrow> list_view \<Rightarrow> deal list" where
  "filteredAndSortedDeals parseDate s =
     js_sort (deal_compare parseDate (lv_sortBy s) (lv_sortOrder s))
       (filter (deal_matches s) (lv_deals s))"

definition paginatedDeals :: "(string \<Rightarrow> int) \<Rightarrow> list_view \<Rightarrow> deal list" where
  "paginatedDeals parseDate s =
    (let startIndex = (lv_currentPage s - 1) * lv_itemsPerPage s
     in js_slice (filteredAndSortedDeals parseDate s) startIndex (startIndex + lv_itemsPerPage s))"

text \<open>The \<open>Next\<close> button (line 745).\<close>

definition lv_nextPage :: "(string \<Rightarrow> int) \<Rightarrow> list_view \<Rightarrow> list_view" where
  "lv_nextPage parseDate s =
     s\<lparr> lv_currentPage := min (ceil_div (int (length (filteredAndSortedDeals parseDate s)))
                                    (lv_itemsPerPage s)) (lv_currentPage s + 1) \<rparr>"

text \<open>The effect of lines 427-429 and its dependency array
  \<open>[filters, searchTerm, leadOwnerFilter]\<close>.\<close>

definition lv_deps_changed :: "list_view \<Rightarrow> list_view \<Rightarrow> bool" where
  "lv_deps_changed prev next =
    (lv_filtersGen next \<noteq> lv_filtersGen prev \<or>
     lv_searchTerm next \<noteq> lv_searchTerm prev \<or>
     lv_leadOwnerFilter next \<noteq> lv_leadOwnerFilter prev)"

definition lv_commit :: "list_view \<Rightarrow> list_view \<Rightarrow> list_view" where
  "lv_commit prev next = (if lv_deps_changed prev next then next\<lparr> lv_currentPage := 1 \<rparr> else next)"

definition lv_setFilters :: "advanced_filter \<Rightarrow> list_view \<Rightarrow> list_view" where
  "lv_setFilters f s = s\<lparr> lv_filters := f, lv_filtersGen := Suc (lv_filtersGen s) \<rparr>"

definition lv_setSearchTerm :: "string \<Rightarrow> list_view \<Rightarrow> list_view" where
  "lv_setSearchTerm v s = s\<lparr> lv_searchTerm := v \<rparr>"

definition lv_setLeadOwnerFilter :: "string \<Rightarrow> list_view \<Rightarrow> list_view" where
  "lv_setLeadOwnerFilter v s = s\<lparr> lv_leadOwnerFilter := v \<rparr>"

definition lv_setItemsPerPage :: "int \<Rightarrow> list_view \<Rightarrow> list_view" where
  "lv_setItemsPerPage n s = s\<lparr> lv_itemsPerPage := n \<rparr>"

text \<open>The \<open>onClick\<close> of a column header (lines 556-563).\<close>

definition lv_headerClick :: "string \<Rightarrow> list_view \<Rightarrow> list_view" where
  "lv_headerClick field s =
    (if lv_sortBy s = field
     then s\<lparr> lv_sortOrder := (if lv_sortOrder s = Asc then Desc else Asc) \<rparr>
     else s\<lparr> lv_sortBy := field, lv_sortOrder := Desc \<rparr>)"

text \<open>\<open>handleSelectAll\<close>, \<open>handleSelectDeal\<close>, \<open>handleBulkDelete\<close> (lines 259-287) and the
  \<open>checked\<close> prop of the header checkbox (line 542).\<close>

definition lv_handleSelectAll :: "(string \<Rightarrow> int) \<Rightarrow> bool \<Rightarrow> list_view \<Rightarrow> list_view" where
  "lv_handleSelectAll parseDate checked s =
    (if checked then s\<lparr> lv_selectedDeals := set (map d_id (filteredAndSortedDeals parseDate s)) \<rparr>
     else s\<lparr> lv_selectedDeals := {} \<rparr>)"

definition lv_handleSelectDeal :: "string \<Rightarrow> bool \<Rightarrow> list_view \<Rightarrow> list_view" where
  "lv_handleSelectDeal dealId checked s =
    (if checked then s\<lparr> lv_selectedDeals := insert dealId (lv_selectedDeals s) \<rparr>
     else s\<lparr> lv_selectedDeals := lv_selectedDeals s - {dealId} \<rparr>)"

definition lv_handleBulkDelete :: "list_view \<Rightarrow> list_view" where
  "lv_handleBulkDelete s =
    (if card (lv_selectedDeals s) = 0 then s
     else s\<lparr> lv_deleteRequests := lv_deleteRequests s @ [lv_selectedDeals s],
             lv_selectedDeals := {},
             lv_toasts := lv_toasts s @ [(''Deals deleted'',
                ''Successfully deleted '' @ nat_toString (card (lv_selectedDeals s)) @ '' deals'')] \<rparr>)"

definition lv_headerChecked :: "(string \<Rightarrow> int) \<Rightarrow> list_view \<Rightarrow> bool" where
  "lv_headerChecked parseDate s =
    (card (lv_selectedDeals s) = length (paginatedDeals parseDate s) \<and>
     length (paginatedDeals parseDate s) > 0)"

section \<open>TaskListView\<close>

text \<open>The type \<open>Task\<close> is declared in \<open>@/types/task\<close>, outside the reviewed sources; the
  record holds the fields the filter of \<open>src/components/tasks/TaskListView.tsx\<close> reads.\<close>

record task =
  t_id :: string
  t_title :: string
  t_description :: "string option"
  t_status :: string
  t_priority :: string
  t_assigned_to :: "string option"

record task_list_view =
  tl_tasks :: "task list"
  tl_searchTerm :: string
  tl_statusFilter :: string
  tl_priorityFilter :: string
  tl_assignedToFilter :: string
  tl_currentPage :: int
  tl_itemsPerPage :: int

text \<open>\<open>filteredTasks\<close> (lines 114-123), the reset effect (lines 126-128) and the page
  window (lines 131-133).\<close>

definition task_matches :: "task_list_view \<Rightarrow> task \<Rightarrow> bool" where
  "task_matches s t =
    (let matchesSearch = (str_includes (toLowerCase (t_title t)) (toLowerCase (tl_searchTerm s)) \<or>
                          opt_includes (t_description t) (toLowerCase (tl_searchTerm s)));
         matchesStatus = (tl_statusFilter s = ''all'' \<or> t_status t = tl_statusFilter s);
         matchesPriority = (tl_priorityFilter s = ''all'' \<or> t_priority t = tl_priorityFilter s);
         matchesAssignedTo = (tl_assignedToFilter s = ''all'' \<or>
                              t_assigned_to t = Some (tl_assignedToFilter s))
     in matchesSearch \<and> matchesStatus \<and> matchesPriority \<and> matchesAssignedTo)"

definition filteredTasks :: "task_list_view \<Rightarrow> task list" where
  "filteredTasks s = filter (task_matches s) (tl_tasks s)"

definition tl_deps_changed :: "task_list_view \<Rightarrow> task_list_view \<Rightarrow> bool" where
  "tl_deps_changed prev next =
    (tl_searchTerm next \<noteq> tl_searchTerm prev \<or>
     tl_statusFilter next \<noteq> tl_statusFilter prev \<or>
     tl_priorityFilter next \<noteq> tl_priorityFilter prev \<or>
     tl_assignedToFilter next \<noteq> tl_assignedToFilter prev)"

definition tl_commit :: "task_list_view \<Rightarrow> task_list_view \<Rightarrow> task_list_view" where
  "tl_commit prev next = (if tl_deps_changed prev next then next\<lparr> tl_currentPage := 1 \<rparr> else next)"

definition tl_setItemsPerPage :: "int \<Rightarrow> task_list_view \<Rightarrow> task_list_view" where
  "tl_setItemsPerPage n s = s\<lparr> tl_itemsPerPage := n \<rparr>"

definition paginatedTasks :: "task_list_view \<Rightarrow> task list" where
  "paginatedTasks s =
    (let startIndex = (tl_currentPage s - 1) * tl_itemsPerPage s
     in js_slice (filteredTasks s) startIndex (startIndex + tl_itemsPerPage s))"

section \<open>The backend, as the controllers call it\<close>

text \<open>The backend client is outside the reviewed sources.  It is modelled as a store of
  tables of rows (a row is a list of column-value pairs; a missing column is \<open>null\<close>) that
  also records every call issued, in order.  A call returns \<open>{ data, error }\<close> and never
  throws: \<open>w_failing\<close> says which calls come back with an error (and its message), in
  which case \<open>data\<close> is \<open>null\<close> and the store is not changed.  \<open>w_auditRejects\<close> says
  whether the awaited audit hook (\<open>logDelete\<close>, \<open>logBulkDelete\<close> of \<open>useCRUDAudit\<close>, also
  outside the reviewed sources) rejects, and with which message.\<close>

type_synonym db_row = "(string \<times> string) list"

datatype call =
    SelectAll string
  | SelectEqLimit string string string nat
  | SelectIn string string "string list"
  | DeleteEq string string string
  | DeleteIn string string "string list"

record world =
  w_db :: "string \<Rightarrow> db_row list"
  w_calls :: "call list"
  w_failing :: "call \<Rightarrow> string option"
  w_auditRejects :: "string option"

fun call_table :: "call \<Rightarrow> string" where
  "call_table (SelectAll t) = t"
| "call_table (SelectEqLimit t c v n) = t"
| "call_table (SelectIn t c vs) = t"
| "call_table (DeleteEq t c v) = t"
| "call_table (DeleteIn t c vs) = t"

definition col_in :: "string \<Rightarrow> string list \<Rightarrow> db_row \<Rightarrow> bool" where
  "col_in c vs r = (case map_of r c of None \<Rightarrow> False | Some v \<Rightarrow> v \<in> set vs)"

text \<open>The rows a call's filter (\<open>.eq\<close>, \<open>.in\<close>) selects.\<close>

fun call_hits :: "call \<Rightarrow> db_row \<Rightarrow> bool" where
  "call_hits (SelectAll t) r = True"
| "call_hits (SelectEqLimit t c v n) r = (map_of r c = Some v)"
| "call_hits (SelectIn t c vs) r = col_in c vs r"
| "call_hits (DeleteEq t c v) r = (map_of r c = Some v)"
| "call_hits (DeleteIn t c vs) r = col_in c vs r"

fun call_limit :: "call \<Rightarrow> db_row list \<Rightarrow> db_row list" where
  "call_limit (SelectEqLimit t c v n) rows = take n rows"
| "call_limit other rows = rows"

fun is_delete :: "call \<Rightarrow> bool" where
  "is_delete (DeleteEq t c v) = True"
| "is_delete (DeleteIn t c vs) = True"
| "is_delete other = False"

text \<open>Issuing a select: the call is recorded; \<open>data\<close> is the rows, or \<open>null\<close> on error.\<close>

definition issue_select :: "call \<Rightarrow> world \<Rightarrow> db_row list option \<times> world" where
  "issue_select c w =
    (let w1 = w\<lparr> w_calls := w_calls w @ [c] \<rparr>
     in case w_failing w c of
          Some msg \<Rightarrow> (None, w1)
        | None \<Rightarrow> (Some (call_limit c (filter (call_hits c) (w_db w (call_table c)))), w1))"

text \<open>Issuing a delete: the call is recorded; the result is \<open>error\<close> (its message), and on
  success the rows the filter selects are gone from the table.\<close>

definition issue_delete :: "call \<Rightarrow> world \<Rightarrow> string option \<times> world" where
  "issue_delete c w =
    (let w1 = w\<lparr> w_calls := w_calls w @ [c] \<rparr>
     in case w_failing w c of
          Some msg \<Rightarrow> (Some msg, w1)
        | None \<Rightarrow> (None, w1\<lparr> w_db := (w_db w)(call_table c :=
                       filter (\<lambda>r. \<not> call_hits c r) (w_db w (call_table c))) \<rparr>))"

text \<open>\<open>error.message || fallback\<close>\<close>

definition error_description :: "string \<Rightarrow> string \<Rightarrow> string" where
  "error_description msg fallback = (if msg \<noteq> [] then msg else fallback)"

text \<open>What reaches the \<open>catch\<close> block after \<open>if (error) throw error\<close> and an awaited audit
  call: the backend's error, else the audit hook's rejection, else nothing.\<close>

definition thrown_after :: "string option \<Rightarrow> string option \<Rightarrow> string option" where
  "thrown_after error audit = (case error of Some msg \<Rightarrow> Some msg | None \<Rightarrow> audit)"

subsection \<open>ContactTable: bulk delete\<close>

text \<open>\<open>fetchContacts\<close> up to its \<open>await\<close>: \<open>setLoading(true)\<close> and the select.  The handlers
  below call it without awaiting; its continuation is \<open>ct_setContacts\<close>.\<close>

definition ct_fetchContacts :: "contact_table \<Rightarrow> world \<Rightarrow> contact_table \<times> world" where
  "ct_fetchContacts s w = (s\<lparr> ct_loading := True \<rparr>, snd (issue_select (SelectAll ''contacts'') w))"

text \<open>\<open>handleBulkDelete\<close> (lines 360-391).  On success it ends with the parent's
  callback \<open>onBulkDeleteComplete\<close>, which touches no cell of this table and is left out,
  here and in the account and lead tables.\<close>

definition ct_handleBulkDelete :: "contact_table \<Rightarrow> world \<Rightarrow> contact_table \<times> world" where
  "ct_handleBulkDelete s w =
    (if length (ct_selectedContacts s) = 0 then (s, w)
     else
       let s1 = s\<lparr> ct_isBulkDeleting := True \<rparr>;
           (error, w1) = issue_delete (DeleteIn ''contacts'' ''id'' (ct_selectedContacts s)) w
       in case thrown_after error (w_auditRejects w1) of
            Some msg \<Rightarrow>
              (s1\<lparr> ct_toasts := ct_toasts s1 @
                      [(''Error'', error_description msg ''Failed to delete contacts'')],
                   ct_isBulkDeleting := False \<rparr>, w1)
          | None \<Rightarrow>
              (let s2 = s1\<lparr> ct_toasts := ct_toasts s1 @ [(''Success'', ''Deleted '' @
                               nat_toString (length (ct_selectedContacts s)) @
                               '' contacts successfully'')],
                             ct_selectedContacts := [] \<rparr>;
                   (s3, w2) = ct_fetchContacts s2 w1
               in (s3\<lparr> ct_isBulkDeleting := False \<rparr>, w2)))"

subsection \<open>Meetings: bulk delete\<close>

definition mt_fetchMeetings :: "meetings_page \<Rightarrow> world \<Rightarrow> meetings_page \<times> world" where
  "mt_fetchMeetings s w = (s\<lparr> mt_loading := True \<rparr>, snd (issue_select (SelectAll ''meetings'') w))"

text \<open>The continuation of a successful fetch (lines 162-163, 172).\<close>

definition mt_setMeetings :: "meeting list \<Rightarrow> meetings_page \<Rightarrow> meetings_page" where
  "mt_setMeetings rows s =
     s\<lparr> mt_meetings := rows, mt_meetingsGen := Suc (mt_meetingsGen s),
        mt_selectedMeetings := [], mt_loading := False \<rparr>"

text \<open>\<open>handleBulkDelete\<close> (lines 278-298).\<close>

definition mt_handleBulkDelete :: "meetings_page \<Rightarrow> world \<Rightarrow> meetings_page \<times> world" where
  "mt_handleBulkDelete s w =
    (let (error, w1) = issue_delete (DeleteIn ''meetings'' ''id'' (mt_selectedMeetings s)) w
     in case error of
          Some msg \<Rightarrow>
            (s\<lparr> mt_toasts := mt_toasts s @ [(''Error'', ''Failed to delete meetings'')] \<rparr>, w1)
        | None \<Rightarrow>
            mt_fetchMeetings
              (s\<lparr> mt_toasts := mt_toasts s @ [(''Success'',
                      nat_toString (length (mt_selectedMeetings s)) @
                      '' meeting(s) deleted successfully'')],
                  mt_selectedMeetings := [] \<rparr>) w1)"

section \<open>AccountTable\<close>

text \<open>\<open>interface Account\<close> of \<open>src/components/AccountTable.tsx\<close>.\<close>

record account =
  a_id :: string
  a_company_name :: string
  a_region :: "string option"
  a_country :: "string option"
  a_website :: "string option"
  a_company_type :: "string option"
  a_tags :: "string list option"
  a_status :: "string option"
  a_notes :: "string option"
  a_account_owner :: "string option"
  a_industry :: "string option"
  a_phone :: "string option"
  a_email :: "string option"
  a_created_at :: "string option"
  a_updated_at :: "string option"
  a_created_by :: "string option"
  a_modified_by :: "string option"
  a_score :: "int option"
  a_segment :: "string option"
  a_total_revenue :: "int option"
  a_deal_count :: "int option"
  a_contact_count :: "int option"

definition account_get :: "account \<Rightarrow> string \<Rightarrow> jsval" where
  "account_get a f =
    (if f = ''id'' then JStr (a_id a)
     else if f = ''company_name'' then JStr (a_company_name a)
     else if f = ''region'' then of_str (a_region a)
     else if f = ''country'' then of_str (a_country a)
     else if f = ''website'' then of_str (a_website a)
     else if f = ''company_type'' then of_str (a_company_type a)
     else if f = ''tags'' then of_arr (a_tags a)
     else if f = ''status'' then of_str (a_status a)
     else if f = ''notes'' then of_str (a_notes a)
     else if f = ''account_owner'' then of_str (a_account_owner a)
     else if f = ''industry'' then of_str (a_industry a)
     else if f = ''phone'' then of_str (a_phone a)
     else if f = ''email'' then of_str (a_email a)
     else if f = ''created_at'' then of_str (a_created_at a)
     else if f = ''updated_at'' then of_str (a_updated_at a)
     else if f = ''created_by'' then of_str (a_created_by a)
     else if f = ''modified_by'' then of_str (a_modified_by a)
     else if f = ''score'' then of_num (a_score a)
     else if f = ''segment'' then of_str (a_segment a)
     else if f = ''total_revenue'' then of_num (a_total_revenue a)
     else if f = ''deal_count'' then of_num (a_deal_count a)
     else if f = ''contact_count'' then of_num (a_contact_count a)
     else JUndefined)"

text \<open>The comparator of lines 212-222.\<close>

definition account_compare ::
  "(string \<Rightarrow> string \<Rightarrow> int) \<Rightarrow> string \<Rightarrow> SortDirection \<Rightarrow> account \<Rightarrow> account \<Rightarrow> int" where
  "account_compare lc f dir a b =
    (let aValue = or_empty (account_get a f);
         bValue = or_empty (account_get b f)
     in case (aValue, bValue) of
          (JNum x, JNum y) \<Rightarrow> (if dir = Asc then x - y else y - x)
        | _ \<Rightarrow> (let comparison = lc (js_toString aValue) (js_toString bValue)
                in if dir = Asc then comparison else - comparison))"

record account_table =
  at_accounts :: "account list"
  at_selectedAccounts :: "string list"
  at_accountToDelete :: "account option"
  at_showDeleteDialog :: bool
  at_isBulkDeleting :: bool
  at_loading :: bool
  at_toasts :: "toast list"

text \<open>\<open>fetchAccounts\<close> up to its first \<open>await\<close>.\<close>

definition at_fetchAccounts :: "account_table \<Rightarrow> world \<Rightarrow> account_table \<times> world" where
  "at_fetchAccounts s w = (s\<lparr> at_loading := True \<rparr>, snd (issue_select (SelectAll ''accounts'') w))"

text \<open>\<open>data && data.length > 0\<close>\<close>

definition has_rows :: "db_row list option \<Rightarrow> bool" where
  "has_rows d = (case d of None \<Rightarrow> False | Some rows \<Rightarrow> length rows > 0)"

text \<open>\<open>handleDelete\<close> (lines 280-318).\<close>

definition at_handleDelete :: "account_table \<Rightarrow> world \<Rightarrow> account_table \<times> world" where
  "at_handleDelete s w =
    (case at_accountToDelete s of
       None \<Rightarrow> (s, w)
     | Some acc \<Rightarrow>
        if a_id acc = [] then (s, w)
        else
          let (linkedContacts, w1) = issue_select (SelectEqLimit ''contacts'' ''account_id'' (a_id acc) 1) w;
              (linkedLeads, w2) = issue_select (SelectEqLimit ''leads'' ''account_id'' (a_id acc) 1) w1
          in if has_rows linkedContacts \<or> has_rows linkedLeads
             then (s\<lparr> at_toasts := at_toasts s @ [(''Cannot Delete'',
                         ''This account has linked contacts or leads. Please unlink them first.'')],
                      at_showDeleteDialog := False \<rparr>, w2)
             else
               let (error, w3) = issue_delete (DeleteEq ''accounts'' ''id'' (a_id acc)) w2
               in (case thrown_after error (w_auditRejects w3) of
                     Some msg \<Rightarrow>
                       (s\<lparr> at_toasts := at_toasts s @
                              [(''Error'', error_description msg ''Failed to delete account'')] \<rparr>, w3)
                   | None \<Rightarrow>
                       (let (s1, w4) = at_fetchAccounts
                               (s\<lparr> at_toasts := at_toasts s @
                                      [(''Success'', ''Account deleted successfully'')] \<rparr>) w3
                        in (s1\<lparr> at_accountToDelete := None, at_showDeleteDialog := False \<rparr>, w4))))"

text \<open>\<open>(data || []).map(r => r.account_id)\<close>\<close>

definition account_ids_of :: "db_row list option \<Rightarrow> string option list" where
  "account_ids_of d = (case d of None \<Rightarrow> [] | Some rows \<Rightarrow> map (\<lambda>r. map_of r ''account_id'') rows)"

text \<open>\<open>handleBulkDelete\<close> (lines 321-372).  The audit hook is awaited once for every deleted
  id that is among the fetched accounts.\<close>

definition at_handleBulkDelete :: "account_table \<Rightarrow> world \<Rightarrow> account_table \<times> world" where
  "at_handleBulkDelete s w =
    (if length (at_selectedAccounts s) = 0 then (s, w)
     else
       let s1 = s\<lparr> at_isBulkDeleting := True \<rparr>;
           sel = at_selectedAccounts s;
           (linkedContacts, w1) = issue_select (SelectIn ''contacts'' ''account_id'' sel) w;
           (linkedLeads, w2) = issue_select (SelectIn ''leads'' ''account_id'' sel) w1;
           accountsWithLinks = set (account_ids_of linkedContacts @ account_ids_of linkedLeads);
           deletableAccounts = filter (\<lambda>i. Some i \<notin> accountsWithLinks) sel;
           skippedCount = length sel - length deletableAccounts
       in if length deletableAccounts = 0
          then (s1\<lparr> at_toasts := at_toasts s1 @ [(''Cannot Delete'',
                        ''All selected accounts have linked contacts or leads.'')],
                     at_isBulkDeleting := False \<rparr>, w2)
          else
            let (error, w3) = issue_delete (DeleteIn ''accounts'' ''id'' deletableAccounts) w2;
                audited = list_ex (\<lambda>i. i \<in> set (map a_id (at_accounts s))) deletableAccounts
            in case thrown_after error (if audited then w_auditRejects w3 else None) of
                 Some msg \<Rightarrow>
                   (s1\<lparr> at_toasts := at_toasts s1 @
                           [(''Error'', error_description msg ''Failed to delete accounts'')],
                        at_isBulkDeleting := False \<rparr>, w3)
               | None \<Rightarrow>
                   (let s2 = s1\<lparr> at_toasts := at_toasts s1 @ [(''Success'',
                              (if skippedCount > 0
                               then ''Deleted '' @ nat_toString (length deletableAccounts) @
                                    '' accounts. '' @ nat_toString skippedCount @
                                    '' skipped (have linked records).''
                               else ''Deleted '' @ nat_toString (length deletableAccounts) @
                                    '' accounts successfully''))],
                                  at_selectedAccounts := [] \<rparr>;
                        (s3, w4) = at_fetchAccounts s2 w3
                    in (s3\<lparr> at_isBulkDeleting := False \<rparr>, w4)))"

section \<open>LeadTable\<close>

text \<open>\<open>interface Lead\<close> of the lead table (second part of \<open>src/components/ContactTable.tsx\<close>).\<close>

record lead =
  l_id :: string
  l_lead_name :: string
  l_company_name :: "string option"
  l_account_company_name :: "string option"
  l_account_id :: "string option"
  l_position :: "string option"
  l_email :: "string option"
  l_phone_no :: "string option"
  l_contact_owner :: "string option"
  l_created_time :: "string option"
  l_modified_time :: "string option"
  l_lead_status :: "string option"
  l_contact_source :: "string option"
  l_linkedin :: "string option"
  l_website :: "string option"
  l_description :: "string option"
  l_created_by :: "string option"
  l_modified_by :: "string option"
  l_country :: "string option"
  l_industry :: "string option"

definition lead_get :: "lead \<Rightarrow> string \<Rightarrow> jsval" where
  "lead_get l f =
    (if f = ''id'' then JStr (l_id l)
     else if f = ''lead_name'' then JStr (l_lead_name l)
     else if f = ''company_name'' then of_str (l_company_name l)
     else if f = ''account_company_name'' then of_str (l_account_company_name l)
     else if f = ''account_id'' then of_str (l_account_id l)
     else if f = ''position'' then of_str (l_position l)
     else if f = ''email'' then of_str (l_email l)
     else if f = ''phone_no'' then of_str (l_phone_no l)
     else if f = ''contact_owner'' then of_str (l_contact_owner l)
     else if f = ''created_time'' then of_str (l_created_time l)
     else if f = ''modified_time'' then of_str (l_modified_time l)
     else if f = ''lead_status'' then of_str (l_lead_status l)
     else if f = ''contact_source'' then of_str (l_contact_source l)
     else if f = ''linkedin'' then of_str (l_linkedin l)
     else if f = ''website'' then of_str (l_website l)
     else if f = ''description'' then of_str (l_description l)
     else if f = ''created_by'' then of_str (l_created_by l)
     else if f = ''modified_by'' then of_str (l_modified_by l)
     else if f = ''country'' then of_str (l_country l)
     else if f = ''industry'' then of_str (l_industry l)
     else JUndefined)"

text \<open>The comparator of lines 1271-1276: always \<open>localeCompare\<close> on the string forms.\<close>

definition lead_compare ::
  "(string \<Rightarrow> string \<Rightarrow> int) \<Rightarrow> string \<Rightarrow> SortDirection \<Rightarrow> lead \<Rightarrow> lead \<Rightarrow> int" where
  "lead_compare lc f dir a b =
    (let aValue = or_empty (lead_get a f);
         bValue = or_empty (lead_get b f);
         comparison = lc (js_toString aValue) (js_toString bValue)
     in if dir = Asc then comparison else - comparison)"

record lead_table =
  lt_selectedLeads :: "string list"
  lt_isBulkDeleting :: bool
  lt_loading :: bool
  lt_toasts :: "toast list"

definition lt_fetchLeads :: "lead_table \<Rightarrow> world \<Rightarrow> lead_table \<times> world" where
  "lt_fetchLeads s w = (s\<lparr> lt_loading := True \<rparr>, snd (issue_select (SelectAll ''leads'') w))"

text \<open>\<open>actionItems.map(item => item.id)\<close>, guarded by
  \<open>actionItems && actionItems.length > 0\<close>.\<close>

definition action_item_ids :: "db_row list option \<Rightarrow> string list" where
  "action_item_ids d = (case d of None \<Rightarrow> [] | Some rows \<Rightarrow> List.map_filter (\<lambda>r. map_of r ''id'') rows)"

text \<open>The cascade of \<open>handleBulkDelete\<close> (lines 1384-1397): no result of it is checked.\<close>

definition lt_deleteLinked :: "string list \<Rightarrow> world \<Rightarrow> world" where
  "lt_deleteLinked sel w =
    (let (e1, wa) = issue_delete (DeleteIn ''notifications'' ''lead_id'' sel) w;
         (actionItems, wb) = issue_select (SelectIn ''lead_action_items'' ''lead_id'' sel) wa;
         wc = (if has_rows actionItems
               then snd (issue_delete
                      (DeleteIn ''notifications'' ''action_item_id'' (action_item_ids actionItems)) wb)
               else wb);
         (e2, wd) = issue_delete (DeleteIn ''lead_action_items'' ''lead_id'' sel) wc
     in wd)"

text \<open>\<open>handleBulkDelete\<close> (lines 1379-1421).\<close>

definition lt_handleBulkDelete :: "bool \<Rightarrow> lead_table \<Rightarrow> world \<Rightarrow> lead_table \<times> world" where
  "lt_handleBulkDelete deleteLinkedRecords s w =
    (if length (lt_selectedLeads s) = 0 then (s, w)
     else
       let s1 = s\<lparr> lt_isBulkDeleting := True \<rparr>;
           sel = lt_selectedLeads s;
           w1 = (if deleteLinkedRecords then lt_deleteLinked sel w else w);
           (error, w2) = issue_delete (DeleteIn ''leads'' ''id'' sel) w1
       in case thrown_after error (w_auditRejects w2) of
            Some msg \<Rightarrow>
              (s1\<lparr> lt_toasts := lt_toasts s1 @
                      [(''Error'', error_description msg ''Failed to delete leads'')],
                   lt_isBulkDeleting := False \<rparr>, w2)
          | None \<Rightarrow>
              (let s2 = s1\<lparr> lt_toasts := lt_toasts s1 @ [(''Success'', ''Deleted '' @
                               nat_toString (length sel) @ '' leads successfully'')],
                             lt_selectedLeads := [] \<rparr>;
                   (s3, w3) = lt_fetchLeads s2 w2
               in (s3\<lparr> lt_isBulkDeleting := False \<rparr>, w3)))"

section \<open>Rows and states for running the controllers\<close>

text \<open>Rows with pairwise different ids and no optional field set, and the states reached
  from the first render once \<open>n\<close> such rows have been fetched.\<close>

definition example_contact :: "nat \<Rightarrow> contact" where
  "example_contact i = \<lparr> c_id = ''c'' @ nat_toString i, c_contact_name = ''Contact'',
     c_company_name = None, c_account_id = None, c_account_company_name = None,
     c_position = None, c_email = None, c_phone_no = None, c_mobile_no = None,
     c_region = None, c_city = None, c_state = None, c_contact_owner = None,
     c_created_time = None, c_modified_time = None, c_lead_status = None,
     c_industry = None, c_contact_source = None, c_linkedin = None, c_website = None,
     c_description = None, c_annual_revenue = None, c_no_of_employees = None,
     c_created_by = None, c_modified_by = None, c_tags = None, c_score = None,
     c_segment = None, c_email_opens = None, c_email_clicks = None,
     c_engagement_score = None, c_last_contacted_at = None \<rparr>"

definition example_contacts :: "nat \<Rightarrow> contact list" where
  "example_contacts n = map example_contact [0..<n]"

definition ct_loaded :: "nat \<Rightarrow> contact_table" where
  "ct_loaded n = ct_commit codeunit_compare ct_init (ct_setContacts (example_contacts n) ct_init)"

text \<open>An environment for running the meetings page: the stored status as effective
  status, and every timestamp read as time 0.\<close>

definition example_env :: meetings_env where
  "example_env = \<lparr> getMeetingStatus = m_status, localMidnight = (\<lambda>t. 0),
     localMinutes = (\<lambda>t. 0) \<rparr>"

definition example_deal :: "nat \<Rightarrow> deal" where
  "example_deal i = \<lparr> d_id = ''d'' @ nat_toString i,
     d_deal_name = None, d_project_name = None, d_lead_name = None, d_customer_name = None,
     d_region = None, d_lead_owner = None, d_stage = ''Lead'', d_priority = None,
     d_probability = None, d_handoff_status = None, d_project_duration = None,
     d_total_contract_value = None, d_total_revenue = None, d_expected_closing_date = None,
     d_start_date = None, d_end_date = None, d_created_at = None, d_modified_at = None,
     d_proposal_due_date = None \<rparr>"

definition no_filters :: advanced_filter where
  "no_filters = \<lparr> af_stages = [], af_regions = [], af_leadOwners = [], af_priorities = [],
     af_probabilities = [], af_handoffStatuses = [], af_searchTerm = [],
     af_probabilityRange = (0, 100) \<rparr>"

text \<open>The first render of \<open>ListView\<close> over \<open>n\<close> deals (\<open>initialStageFilter\<close> is \<open>all\<close>).\<close>

definition lv_init :: "nat \<Rightarrow> list_view" where
  "lv_init n = \<lparr> lv_deals = map example_deal [0..<n], lv_searchTerm = [],
     lv_leadOwnerFilter = ''all'', lv_filters = no_filters, lv_filtersGen = 0,
     lv_sortBy = ''modified_at'', lv_sortOrder = Desc, lv_selectedDeals = {},
     lv_currentPage = 1, lv_itemsPerPage = 25, lv_toasts = [], lv_deleteRequests = [] \<rparr>"

text \<open>A store for running the delete handlers: account \<open>A1\<close> has a linked contact,
  account \<open>A2\<close> has none; lead \<open>L1\<close> has a notification and an action item \<open>I1\<close>, which
  has a notification of its own.  The argument says which calls fail.\<close>

definition example_db :: "string \<Rightarrow> db_row list" where
  "example_db t =
    (if t = ''accounts'' then [[(''id'', ''A1'')], [(''id'', ''A2'')]]
     else if t = ''contacts'' then
       [[(''id'', ''c0''), (''account_id'', ''A1'')], [(''id'', ''c1'')], [(''id'', ''c2'')]]
     else if t = ''leads'' then [[(''id'', ''L1'')], [(''id'', ''L2'')], [(''id'', ''L3'')]]
     else if t = ''lead_action_items'' then
       [[(''id'', ''I1''), (''lead_id'', ''L1'')], [(''id'', ''I2''), (''lead_id'', ''L3'')]]
     else if t = ''notifications'' then
       [[(''id'', ''N1''), (''lead_id'', ''L1'')], [(''id'', ''N2''), (''action_item_id'', ''I1'')],
        [(''id'', ''N3''), (''lead_id'', ''L3'')]]
     else if t = ''meetings'' then [[(''id'', ''m0'')], [(''id'', ''m1'')], [(''id'', ''m2'')]]
     else [])"

definition example_world :: "(call \<Rightarrow> string option) \<Rightarrow> world" where
  "example_world failing =
     \<lparr> w_db = example_db, w_calls = [], w_failing = failing, w_auditRejects = None \<rparr>"

definition no_failure :: "call \<Rightarrow> string option" where
  "no_failure c = None"

definition deletes_fail :: "call \<Rightarrow> string option" where
  "deletes_fail c = (if is_delete c then Some ''permission denied'' else None)"

definition contact_lookups_fail :: "call \<Rightarrow> string option" where
  "contact_lookups_fail c =
     (if call_table c = ''contacts'' \<and> \<not> is_delete c then Some ''timeout'' else None)"

definition action_item_lookups_fail :: "call \<Rightarrow> string option" where
  "action_item_lookups_fail c =
     (if call_table c = ''lead_action_items'' \<and> \<not> is_delete c then Some ''timeout'' else None)"

text \<open>The account rows \<open>A1\<close> and \<open>A2\<close> as the table holds them, and a table state with
  \<open>A1\<close> up for deletion and both selected.\<close>

definition example_account :: "string \<Rightarrow> account" where
  "example_account i = \<lparr> a_id = i, a_company_name = ''Acme'', a_region = None,
     a_country = None, a_website = None, a_company_type = None, a_tags = None, a_status = None,
     a_notes = None, a_account_owner = None, a_industry = None, a_phone = None, a_email = None,
     a_created_at = None, a_updated_at = None, a_created_by = None, a_modified_by = None,
     a_score = None, a_segment = None, a_total_revenue = None, a_deal_count = None,
     a_contact_count = None \<rparr>"

definition at_example :: account_table where
  "at_example = \<lparr> at_accounts = [example_account ''A1'', example_account ''A2''],
     at_selectedAccounts = [''A1'', ''A2''], at_accountToDelete = Some (example_account ''A1''),
     at_showDeleteDialog = True, at_isBulkDeleting = False, at_loading = False,
     at_toasts = [] \<rparr>"

definition lt_example :: lead_table where
  "lt_example = \<lparr> lt_selectedLeads = [''L1'', ''L2'', ''L3''], lt_isBulkDeleting = False,
     lt_loading = False, lt_toasts = [] \<rparr>"

section \<open>Notions for stating the sort order\<close>

text \<open>The comparison of two numeric field values in the words of the specification:
  \<open>null\<close> and \<open>undefined\<close> sort as zero, and the values are subtracted.
  \<open>spec_num_value\<close> is the number a field value sorts as.\<close>

definition spec_numeric_compare :: "SortDirection \<Rightarrow> int option \<Rightarrow> int option \<Rightarrow> int" where
  "spec_numeric_compare dir x y =
    (let a = (case x of None \<Rightarrow> 0 | Some n \<Rightarrow> n);
         b = (case y of None \<Rightarrow> 0 | Some n \<Rightarrow> n)
     in if dir = Asc then a - b else b - a)"

definition spec_num_value :: "jsval \<Rightarrow> int" where
  "spec_num_value v = (case v of JNum n \<Rightarrow> n | _ \<Rightarrow> 0)"

text \<open>The order in which the comparator of \<open>ContactTable\<close> and \<open>AccountTable\<close> leaves the
  rows of an ascending sort on a numeric column: \<open>num_key\<close> is \<open>None\<close> for a value the
  comparator has coalesced to \<open>''\<close> and the number otherwise; \<open>falsy_first\<close> puts the key
  \<open>None\<close> first and orders the numbers.\<close>

definition num_key :: "jsval \<Rightarrow> int option" where
  "num_key v = (case or_empty v of JNum n \<Rightarrow> Some n | _ \<Rightarrow> None)"

definition falsy_first :: "int option \<Rightarrow> int option \<Rightarrow> bool" where
  "falsy_first k l =
    (case k of None \<Rightarrow> True | Some x \<Rightarrow> (case l of None \<Rightarrow> False | Some y \<Rightarrow> x \<le> y))"

definition numeric_or_missing :: "jsval \<Rightarrow> bool" where
  "numeric_or_missing v = (case v of JUndefined \<Rightarrow> True | JNum n \<Rightarrow> True | _ \<Rightarrow> False)"

definition nonnegative_or_missing :: "jsval \<Rightarrow> bool" where
  "nonnegative_or_missing v = (case v of JUndefined \<Rightarrow> True | JNum n \<Rightarrow> 0 \<le> n | _ \<Rightarrow> False)"

text \<open>What the lemmas on sorted output use of the collation: the empty string does not
  sort after itself, and it sorts before the decimal form of every number.\<close>

definition empty_before_numerals :: "(string \<Rightarrow> string \<Rightarrow> int) \<Rightarrow> bool" where
  "empty_before_numerals lc =
     (lc [] [] \<le> 0 \<and> (\<forall>n. lc [] (int_toString n) < 0 \<and> 0 < lc (int_toString n) []))"

text \<open>A contact, an account and a deal with a revenue.\<close>

definition revenue_contact :: "nat \<Rightarrow> int option \<Rightarrow> contact" where
  "revenue_contact i r = (example_contact i)\<lparr> c_annual_revenue := r \<rparr>"

definition revenue_account :: "string \<Rightarrow> int option \<Rightarrow> account" where
  "revenue_account i r = (example_account i)\<lparr> a_total_revenue := r \<rparr>"

definition revenue_deal :: "nat \<Rightarrow> int option \<Rightarrow> deal" where
  "revenue_deal i r = (example_deal i)\<lparr> d_total_revenue := r \<rparr>"

section \<open>Properties\<close>

subsection \<open>Arrays and strings\<close>

lemma set_js_slice: "set (js_slice xs a b) \<subseteq> set xs"
  unfolding js_slice_def Let_def
  by (meson set_take_subset set_drop_subset subset_trans)


lemma set_js_insert: "set (js_insert cmp x ys) = insert x (set ys)"
  by (induction ys) auto

lemma set_js_sort: "set (js_sort cmp xs) = set xs"
  unfolding js_sort_def by (induction xs) (auto simp: set_js_insert)

lemma length_js_insert: "length (js_insert cmp x ys) = Suc (length ys)"
  by (induction ys) auto

lemma length_js_sort: "length (js_sort cmp xs) = length xs"
  unfolding js_sort_def by (induction xs) (auto simp: length_js_insert)

lemma js_slice_0: "0 \<le> n \<Longrightarrow> js_slice xs 0 n = take (nat n) xs"
  unfolding js_slice_def Let_def by (auto simp: min_def)

lemma js_sort_all_le:
  "(\<And>x y. x \<in> set xs \<Longrightarrow> y \<in> set xs \<Longrightarrow> cmp x y \<le> 0) \<Longrightarrow> js_sort cmp xs = xs"
  unfolding js_sort_def
proof (induction xs)
  case Nil
  then show ?case by simp
next
  case (Cons a xs)
  then have "foldr (js_insert cmp) xs [] = xs" by simp
  with Cons.prems show ?case by (cases xs) auto
qed

lemma str_includes_Nil: "str_includes s [] = True"
  by (cases s) auto

subsection \<open>The states used to run the controllers\<close>

lemma ct_filtered_loaded: "ct_filteredContacts (ct_loaded n) = example_contacts n"
proof -
  have m: "contact_matches_search [] (example_contact i)" for i
    by (simp add: contact_matches_search_def str_includes_Nil)
  have "filter (contact_matches_search []) (example_contacts n) = example_contacts n"
    unfolding example_contacts_def by (simp add: m)
  then show ?thesis
    by (simp add: ct_loaded_def ct_commit_def ct_deps_changed_def ct_setContacts_def
        ct_init_def ct_filter_effect_def ct_filtered_def toLowerCase_def)
qed

lemma ct_loaded_fields:
  "ct_currentPage (ct_loaded n) = 1" "ct_itemsPerPage (ct_loaded n) = 25"
  "ct_sourceFilter (ct_loaded n) = ''all''" "ct_ownerFilter (ct_loaded n) = ''all''"
  "ct_segmentFilter (ct_loaded n) = ''all''" "ct_tagFilter (ct_loaded n) = None"
  "ct_searchTerm (ct_loaded n) = []" "ct_debouncedSearchTerm (ct_loaded n) = []"
  "ct_sortField (ct_loaded n) = None" "ct_sortDirection (ct_loaded n) = Asc"
  "ct_selectedContacts (ct_loaded n) = []"
  by (simp_all add: ct_loaded_def ct_commit_def ct_deps_changed_def ct_setContacts_def
        ct_init_def ct_filter_effect_def)

lemma deal_matches_init: "deal_matches (lv_init n) (example_deal i)"
  by (simp add: deal_matches_def lv_init_def no_filters_def example_deal_def
      toLowerCase_def str_or_empty_def probability_or_zero_def)

lemma filter_deals_init:
  "filter (deal_matches (lv_init n)) (lv_deals (lv_init n)) = map example_deal [0..<n]"
proof -
  have d: "lv_deals (lv_init n) = map example_deal [0..<n]"
    by (simp add: lv_init_def)
  have "filter (deal_matches (lv_init n)) (map example_deal [0..<n]) = map example_deal [0..<n]"
    by (rule filter_True) (auto simp: deal_matches_init)
  then show ?thesis
    by (simp only: d)
qed

lemma length_deals_init: "length (filteredAndSortedDeals parseDate (lv_init n)) = n"
  by (simp add: filteredAndSortedDeals_def length_js_sort filter_deals_init)

lemma set_deals_init:
  "set (filteredAndSortedDeals parseDate (lv_init n)) = example_deal ` {0..<n}"
  by (simp add: filteredAndSortedDeals_def set_js_sort filter_deals_init)

lemma deals_init: "filteredAndSortedDeals parseDate (lv_init n) = map example_deal [0..<n]"
proof -
  have c: "deal_compare parseDate ''modified_at'' Desc (example_deal i) (example_deal j) = 0"
    for i j
    by (simp add: deal_compare_def deal_sort_key_def deal_get_def example_deal_def of_str_def)
  have "js_sort (deal_compare parseDate ''modified_at'' Desc) (map example_deal [0..<n])
      = map example_deal [0..<n]"
    by (rule js_sort_all_le) (auto simp: c)
  then show ?thesis
    by (simp add: filteredAndSortedDeals_def filter_deals_init) (simp add: lv_init_def)
qed

lemma example_ids: "c_id (example_contact i) = ''c'' @ nat_toString i"
  "d_id (example_deal i) = ''d'' @ nat_toString i"
  by (simp_all add: example_contact_def example_deal_def)


subsection \<open>Backend calls\<close>

lemma call_hits_fun:
  "call_hits (SelectAll t) = (\<lambda>r. True)"
  "call_hits (SelectEqLimit t c v n) = (\<lambda>r. map_of r c = Some v)"
  "call_hits (SelectIn t c vs) = col_in c vs"
  "call_hits (DeleteEq t c v) = (\<lambda>r. map_of r c = Some v)"
  "call_hits (DeleteIn t c vs) = col_in c vs"
  by (rule ext, simp)+

lemma issue_delete_simps:
  "fst (issue_delete c w) = w_failing w c"
  "w_calls (snd (issue_delete c w)) = w_calls w @ [c]"
  "w_failing (snd (issue_delete c w)) = w_failing w"
  "w_auditRejects (snd (issue_delete c w)) = w_auditRejects w"
  "w_db (snd (issue_delete c w)) =
     (if w_failing w c = None
      then (w_db w)(call_table c := filter (\<lambda>r. \<not> call_hits c r) (w_db w (call_table c)))
      else w_db w)"
  by (auto simp: issue_delete_def Let_def split: option.splits)

lemma issue_select_simps:
  "fst (issue_select c w) =
     (if w_failing w c = None
      then Some (call_limit c (filter (call_hits c) (w_db w (call_table c)))) else None)"
  "w_calls (snd (issue_select c w)) = w_calls w @ [c]"
  "w_failing (snd (issue_select c w)) = w_failing w"
  "w_auditRejects (snd (issue_select c w)) = w_auditRejects w"
  "w_db (snd (issue_select c w)) = w_db w"
  by (auto simp: issue_select_def Let_def split: option.splits)


subsection \<open>The page window\<close>

lemma set_ct_filtered: "set (ct_filtered lc s) \<subseteq> set (ct_contacts s)"
  unfolding ct_filtered_def Let_def
  by (auto simp: set_js_sort split: option.splits if_splits)

lemma set_sortedAndFilteredMeetings:
  "set (sortedAndFilteredMeetings env s) \<subseteq> set (mt_meetings s)"
  unfolding sortedAndFilteredMeetings_def Let_def
  by (auto simp: set_js_sort split: option.splits)

text \<open>
  Claim C1.  Whatever the fetched collection, the search term, the dropdown filters, the
  sort column and direction, the page number and the page size are: the rows of the
  displayed page window are among the filtered rows, and the filtered rows are among the
  fetched rows.  For \<open>ContactTable\<close> and \<open>Meetings\<close> the filtered rows are the state cell the
  filter effect writes: the window is within that cell in every state, the effect fills
  it from the fetched rows only, and so the window of any page \<open>p\<close> (and page size \<open>n\<close>)
  chosen afterwards is within the fetched rows.  For \<open>ListView\<close> and \<open>TaskListView\<close> the
  filtered rows are computed at every render.
\<close>

theorem C1_page_subset_filtered_subset_all:
  "set (ct_pageContacts s) \<subseteq> set (ct_filteredContacts s) \<and>
   set (ct_filteredContacts (ct_filter_effect lc s)) \<subseteq> set (ct_contacts (ct_filter_effect lc s)) \<and>
   set (ct_pageContacts ((ct_filter_effect lc s)\<lparr> ct_currentPage := p, ct_itemsPerPage := n \<rparr>))
     \<subseteq> set (ct_contacts s) \<and>
   set (paginatedMeetings m) \<subseteq> set (mt_filteredMeetings m) \<and>
   set (mt_filteredMeetings (mt_filter_effect env m)) \<subseteq> set (mt_meetings (mt_filter_effect env m)) \<and>
   set (paginatedMeetings ((mt_filter_effect env m)\<lparr> mt_currentPage := p \<rparr>))
     \<subseteq> set (mt_meetings m) \<and>
   set (paginatedDeals parseDate l) \<subseteq> set (filteredAndSortedDeals parseDate l) \<and>
   set (filteredAndSortedDeals parseDate l) \<subseteq> set (lv_deals l) \<and>
   set (paginatedTasks t) \<subseteq> set (filteredTasks t) \<and>
   set (filteredTasks t) \<subseteq> set (tl_tasks t)"
proof -
  have a: "set (ct_pageContacts s') \<subseteq> set (ct_filteredContacts s')" for s'
    unfolding ct_pageContacts_def by (rule set_js_slice)
  have b: "set (ct_filteredContacts (ct_filter_effect lc s)) \<subseteq> set (ct_contacts s)"
    unfolding ct_filter_effect_def using set_ct_filtered[of lc s] by simp
  have c: "set (paginatedMeetings m') \<subseteq> set (mt_filteredMeetings m')" for m'
    unfolding paginatedMeetings_def Let_def by (rule set_js_slice)
  have d: "set (mt_filteredMeetings (mt_filter_effect env m)) \<subseteq> set (mt_meetings m)"
    unfolding mt_filter_effect_def using set_sortedAndFilteredMeetings[of env m] by simp
  have e: "ct_contacts (ct_filter_effect lc s) = ct_contacts s"
    by (simp add: ct_filter_effect_def)
  have f: "mt_meetings (mt_filter_effect env m) = mt_meetings m"
    by (simp add: mt_filter_effect_def)
  have g: "set (paginatedDeals parseDate l) \<subseteq> set (filteredAndSortedDeals parseDate l)"
    unfolding paginatedDeals_def Let_def by (rule set_js_slice)
  have h: "set (filteredAndSortedDeals parseDate l) \<subseteq> set (lv_deals l)"
    unfolding filteredAndSortedDeals_def by (auto simp: set_js_sort)
  have i: "set (paginatedTasks t) \<subseteq> set (filteredTasks t)"
    unfolding paginatedTasks_def Let_def by (rule set_js_slice)
  have j: "set (filteredTasks t) \<subseteq> set (tl_tasks t)"
    unfolding filteredTasks_def by auto
  have k: "set (ct_pageContacts ((ct_filter_effect lc s)\<lparr> ct_currentPage := p, ct_itemsPerPage := n \<rparr>))
      \<subseteq> set (ct_contacts s)"
    using a[of "(ct_filter_effect lc s)\<lparr> ct_currentPage := p, ct_itemsPerPage := n \<rparr>"] b
    by auto
  have m: "set (paginatedMeetings ((mt_filter_effect env m)\<lparr> mt_currentPage := p \<rparr>))
      \<subseteq> set (mt_meetings m)"
    using c[of "(mt_filter_effect env m)\<lparr> mt_currentPage := p \<rparr>"] d by auto
  show ?thesis
    using a[of s] b c[of m] d e f g h i j k m by simp
qed
text \<open>The theorem at work after a fetch of 30 contacts, on page 2, and on the first
  renders of the meetings page, of the deals list over 30 deals and of an empty task
  list.\<close>

theorem C1_page_subset_filtered_subset_all_witness:
  "set (ct_pageContacts (ct_nextPage (ct_loaded 30)))
     \<subseteq> set (ct_filteredContacts (ct_nextPage (ct_loaded 30))) \<and>
   set (ct_pageContacts ((ct_filter_effect codeunit_compare (ct_nextPage (ct_loaded 30)))
          \<lparr> ct_currentPage := 3, ct_itemsPerPage := 10 \<rparr>))
     \<subseteq> set (example_contacts 30) \<and>
   set (paginatedMeetings ((mt_filter_effect example_env mt_init)\<lparr> mt_currentPage := 3 \<rparr>))
     \<subseteq> {} \<and>
   set (paginatedDeals (\<lambda>d. 0) (lv_init 30)) \<subseteq> set (filteredAndSortedDeals (\<lambda>d. 0) (lv_init 30)) \<and>
   set (filteredAndSortedDeals (\<lambda>d. 0) (lv_init 30)) \<subseteq> set (map example_deal [0..<30])"
proof -
  let ?t = "\<lparr> tl_tasks = [], tl_searchTerm = [], tl_statusFilter = ''all'',
     tl_priorityFilter = ''all'', tl_assignedToFilter = ''all'', tl_currentPage = 1,
     tl_itemsPerPage = 25 \<rparr>"
  have c: "ct_contacts (ct_nextPage (ct_loaded 30)) = example_contacts 30"
    by (simp add: ct_nextPage_def ct_loaded_def ct_commit_def ct_deps_changed_def
        ct_setContacts_def ct_init_def ct_filter_effect_def)
  have m: "mt_meetings mt_init = []"
    by (simp add: mt_init_def)
  have l: "lv_deals (lv_init 30) = map example_deal [0..<30]"
    by (simp add: lv_init_def)
  from C1_page_subset_filtered_subset_all[where s = "ct_nextPage (ct_loaded 30)"
      and lc = codeunit_compare and m = mt_init and env = example_env
      and parseDate = "\<lambda>d. 0" and l = "lv_init 30" and t = ?t and p = 3 and n = 10]
  show ?thesis
    by (simp only: c m l) simp
qed


subsection \<open>Resetting the page\<close>

text \<open>
  Claim C2, as the code has it.  In \<open>ContactTable\<close> a new value of a dropdown filter
  (source, owner, segment, tag), a new debounced search term (the typed term reaches the
  filter when the 300 ms timer fires; typing alone leaves the page) and every click on a
  column header run the filter effect, which sets \<open>currentPage\<close> to 1.  In \<open>Meetings\<close> a
  new search term, status filter or organizer filter and every call of \<open>handleSort\<close> do
  the same.  In \<open>ListView\<close> a new search term, a new lead-owner filter and every
  \<open>setFilters\<close> set \<open>currentPage\<close> to 1, while a click on a column header, which changes
  the sort column or the direction, leaves \<open>currentPage\<close> as it is.
\<close>

theorem C2_page_reset:
  "(v \<noteq> ct_sourceFilter s \<longrightarrow> ct_currentPage (ct_commit lc s (ct_setSourceFilter v s)) = 1) \<and>
   (v \<noteq> ct_ownerFilter s \<longrightarrow> ct_currentPage (ct_commit lc s (ct_setOwnerFilter v s)) = 1) \<and>
   (v \<noteq> ct_segmentFilter s \<longrightarrow> ct_currentPage (ct_commit lc s (ct_setSegmentFilter v s)) = 1) \<and>
   (tg \<noteq> ct_tagFilter s \<longrightarrow> ct_currentPage (ct_commit lc s (ct_setTagFilter tg s)) = 1) \<and>
   (ct_searchTerm s \<noteq> ct_debouncedSearchTerm s \<longrightarrow>
      ct_currentPage (ct_commit lc s (ct_debounceElapsed s)) = 1) \<and>
   ct_currentPage (ct_commit lc s (ct_setSearchTerm v s)) = ct_currentPage s \<and>
   ct_currentPage (ct_commit lc s (ct_handleSort f s)) = 1 \<and>
   (v \<noteq> mt_searchTerm m \<longrightarrow> mt_currentPage (mt_commit env m (mt_setSearchTerm v m)) = 1) \<and>
   (v \<noteq> mt_statusFilter m \<longrightarrow> mt_currentPage (mt_commit env m (mt_setStatusFilter v m)) = 1) \<and>
   (v \<noteq> mt_organizerFilter m \<longrightarrow>
      mt_currentPage (mt_commit env m (mt_setOrganizerFilter v m)) = 1) \<and>
   mt_currentPage (mt_commit env m (mt_handleSort col m)) = 1 \<and>
   (v \<noteq> lv_searchTerm l \<longrightarrow> lv_currentPage (lv_commit l (lv_setSearchTerm v l)) = 1) \<and>
   (v \<noteq> lv_leadOwnerFilter l \<longrightarrow>
      lv_currentPage (lv_commit l (lv_setLeadOwnerFilter v l)) = 1) \<and>
   lv_currentPage (lv_commit l (lv_setFilters af l)) = 1 \<and>
   lv_currentPage (lv_commit l (lv_headerClick g l)) = lv_currentPage l"
proof -
  have ct: "ct_deps_changed s s' \<Longrightarrow> ct_currentPage (ct_commit lc s s') = 1" for s'
    by (simp add: ct_commit_def ct_filter_effect_def)
  have mt: "mt_deps_changed m m' \<Longrightarrow> mt_currentPage (mt_commit env m m') = 1" for m'
    by (simp add: mt_commit_def mt_filter_effect_def)
  have lv: "lv_deps_changed l l' \<Longrightarrow> lv_currentPage (lv_commit l l') = 1" for l'
    by (simp add: lv_commit_def)
  have c1: "v \<noteq> ct_sourceFilter s \<longrightarrow> ct_currentPage (ct_commit lc s (ct_setSourceFilter v s)) = 1"
    by (auto intro!: ct simp: ct_deps_changed_def ct_setSourceFilter_def)
  have c2: "v \<noteq> ct_ownerFilter s \<longrightarrow> ct_currentPage (ct_commit lc s (ct_setOwnerFilter v s)) = 1"
    by (auto intro!: ct simp: ct_deps_changed_def ct_setOwnerFilter_def)
  have c3: "v \<noteq> ct_segmentFilter s \<longrightarrow>
      ct_currentPage (ct_commit lc s (ct_setSegmentFilter v s)) = 1"
    by (auto intro!: ct simp: ct_deps_changed_def ct_setSegmentFilter_def)
  have c4: "tg \<noteq> ct_tagFilter s \<longrightarrow> ct_currentPage (ct_commit lc s (ct_setTagFilter tg s)) = 1"
    by (auto intro!: ct simp: ct_deps_changed_def ct_setTagFilter_def)
  have c5: "ct_searchTerm s \<noteq> ct_debouncedSearchTerm s \<longrightarrow>
      ct_currentPage (ct_commit lc s (ct_debounceElapsed s)) = 1"
    by (auto intro!: ct simp: ct_deps_changed_def ct_debounceElapsed_def)
  have c6: "ct_currentPage (ct_commit lc s (ct_setSearchTerm v s)) = ct_currentPage s"
    by (simp add: ct_commit_def ct_deps_changed_def ct_setSearchTerm_def)
  have c7: "ct_currentPage (ct_commit lc s (ct_handleSort f s)) = 1"
    by (rule ct) (cases "ct_sortDirection s"; auto simp: ct_deps_changed_def ct_handleSort_def)
  have m1: "v \<noteq> mt_searchTerm m \<longrightarrow> mt_currentPage (mt_commit env m (mt_setSearchTerm v m)) = 1"
    by (auto intro!: mt simp: mt_deps_changed_def mt_setSearchTerm_def)
  have m2: "v \<noteq> mt_statusFilter m \<longrightarrow>
      mt_currentPage (mt_commit env m (mt_setStatusFilter v m)) = 1"
    by (auto intro!: mt simp: mt_deps_changed_def mt_setStatusFilter_def)
  have m3: "v \<noteq> mt_organizerFilter m \<longrightarrow>
      mt_currentPage (mt_commit env m (mt_setOrganizerFilter v m)) = 1"
    by (auto intro!: mt simp: mt_deps_changed_def mt_setOrganizerFilter_def)
  have m4: "mt_currentPage (mt_commit env m (mt_handleSort col m)) = 1"
    by (rule mt) (cases "mt_sortDirection m"; auto simp: mt_deps_changed_def mt_handleSort_def)
  have l1: "v \<noteq> lv_searchTerm l \<longrightarrow> lv_currentPage (lv_commit l (lv_setSearchTerm v l)) = 1"
    by (auto intro!: lv simp: lv_deps_changed_def lv_setSearchTerm_def)
  have l2: "v \<noteq> lv_leadOwnerFilter l \<longrightarrow>
      lv_currentPage (lv_commit l (lv_setLeadOwnerFilter v l)) = 1"
    by (auto intro!: lv simp: lv_deps_changed_def lv_setLeadOwnerFilter_def)
  have l3: "lv_currentPage (lv_commit l (lv_setFilters af l)) = 1"
    by (rule lv) (simp add: lv_deps_changed_def lv_setFilters_def)
  have l4: "lv_currentPage (lv_commit l (lv_headerClick g l)) = lv_currentPage l"
    by (simp add: lv_commit_def lv_deps_changed_def lv_headerClick_def)
  show ?thesis
    using c1 c2 c3 c4 c5 c6 c7 m1 m2 m3 m4 l1 l2 l3 l4 by blast
qed

text \<open>The states of the examples: page 2 of a contact table over 30 contacts with
  \<open>acme\<close> typed into the search box, page 2 of the meetings page, and page 2 of the deals
  list over 30 deals.\<close>

theorem C2_page_reset_witness:
  "ct_currentPage (ct_setSearchTerm ''acme'' (ct_nextPage (ct_loaded 30))) = 2 \<and>
   ct_currentPage (ct_commit codeunit_compare
      (ct_setSearchTerm ''acme'' (ct_nextPage (ct_loaded 30)))
      (ct_setSourceFilter ''Website'' (ct_setSearchTerm ''acme'' (ct_nextPage (ct_loaded 30))))) = 1 \<and>
   ct_currentPage (ct_commit codeunit_compare
      (ct_setSearchTerm ''acme'' (ct_nextPage (ct_loaded 30)))
      (ct_setOwnerFilter ''Website'' (ct_setSearchTerm ''acme'' (ct_nextPage (ct_loaded 30))))) = 1 \<and>
   ct_currentPage (ct_commit codeunit_compare
      (ct_setSearchTerm ''acme'' (ct_nextPage (ct_loaded 30)))
      (ct_setSegmentFilter ''Website'' (ct_setSearchTerm ''acme'' (ct_nextPage (ct_loaded 30))))) = 1 \<and>
   ct_currentPage (ct_commit codeunit_compare
      (ct_setSearchTerm ''acme'' (ct_nextPage (ct_loaded 30)))
      (ct_setTagFilter (Some ''vip'') (ct_setSearchTerm ''acme'' (ct_nextPage (ct_loaded 30))))) = 1 \<and>
   ct_currentPage (ct_commit codeunit_compare
      (ct_setSearchTerm ''acme'' (ct_nextPage (ct_loaded 30)))
      (ct_debounceElapsed (ct_setSearchTerm ''acme'' (ct_nextPage (ct_loaded 30))))) = 1 \<and>
   mt_currentPage (mt_commit example_env (mt_init\<lparr> mt_currentPage := 2 \<rparr>)
      (mt_setSearchTerm ''Website'' (mt_init\<lparr> mt_currentPage := 2 \<rparr>))) = 1 \<and>
   mt_currentPage (mt_commit example_env (mt_init\<lparr> mt_currentPage := 2 \<rparr>)
      (mt_setStatusFilter ''Website'' (mt_init\<lparr> mt_currentPage := 2 \<rparr>))) = 1 \<and>
   mt_currentPage (mt_commit example_env (mt_init\<lparr> mt_currentPage := 2 \<rparr>)
      (mt_setOrganizerFilter ''Website'' (mt_init\<lparr> mt_currentPage := 2 \<rparr>))) = 1 \<and>
   lv_currentPage (lv_commit ((lv_init 30)\<lparr> lv_currentPage := 2 \<rparr>)
      (lv_setSearchTerm ''Website'' ((lv_init 30)\<lparr> lv_currentPage := 2 \<rparr>))) = 1 \<and>
   lv_currentPage (lv_commit ((lv_init 30)\<lparr> lv_currentPage := 2 \<rparr>)
      (lv_setLeadOwnerFilter ''Website'' ((lv_init 30)\<lparr> lv_currentPage := 2 \<rparr>))) = 1"
proof -
  let ?s = "ct_setSearchTerm ''acme'' (ct_nextPage (ct_loaded 30))"
  let ?m = "mt_init\<lparr> mt_currentPage := 2 \<rparr>"
  let ?l = "(lv_init 30)\<lparr> lv_currentPage := 2 \<rparr>"
  have len: "length (example_contacts 30) = 30"
    by (simp add: example_contacts_def)
  have p: "ct_currentPage ?s = 2"
    by (simp add: ct_setSearchTerm_def ct_nextPage_def ct_totalPages_def ct_filtered_loaded
        ct_loaded_fields len ceil_div_def)
  have h: "''Website'' \<noteq> ct_sourceFilter ?s" "''Website'' \<noteq> ct_ownerFilter ?s"
    "''Website'' \<noteq> ct_segmentFilter ?s" "Some ''vip'' \<noteq> ct_tagFilter ?s"
    "ct_searchTerm ?s \<noteq> ct_debouncedSearchTerm ?s"
    by (simp_all add: ct_setSearchTerm_def ct_nextPage_def ct_loaded_fields)
  have hm: "''Website'' \<noteq> mt_searchTerm ?m" "''Website'' \<noteq> mt_statusFilter ?m"
    "''Website'' \<noteq> mt_organizerFilter ?m"
    by (simp_all add: mt_init_def)
  have hl: "''Website'' \<noteq> lv_searchTerm ?l" "''Website'' \<noteq> lv_leadOwnerFilter ?l"
    by (simp_all add: lv_init_def)
  note A = C2_page_reset[where s = ?s and v = "''Website''" and tg = "Some ''vip''"
      and lc = codeunit_compare and m = ?m and env = example_env and l = ?l]
  show ?thesis
    using A p h hm hl by blast
qed

text \<open>Claim C2 as stated fails in \<open>ListView\<close>: on page 2 of the deals list over 30 deals,
  a click on the header of \<open>stage\<close> changes the sort column, and the current page is
  still 2.\<close>

theorem C2_sort_change_keeps_page_counterexample:
  "lv_sortBy (lv_nextPage (\<lambda>d. 0) (lv_init 30)) \<noteq>
     lv_sortBy (lv_headerClick ''stage'' (lv_nextPage (\<lambda>d. 0) (lv_init 30))) \<and>
   lv_currentPage (lv_nextPage (\<lambda>d. 0) (lv_init 30)) = 2 \<and>
   lv_currentPage (lv_commit (lv_nextPage (\<lambda>d. 0) (lv_init 30))
      (lv_headerClick ''stage'' (lv_nextPage (\<lambda>d. 0) (lv_init 30)))) = 2"
proof -
  have len: "length (filteredAndSortedDeals (\<lambda>d. 0) (lv_init 30)) = 30"
    by (rule length_deals_init)
  have p: "lv_currentPage (lv_nextPage (\<lambda>d. 0) (lv_init 30)) = 2"
    by (simp add: lv_nextPage_def len ceil_div_def) (simp add: lv_init_def)
  have q: "lv_sortBy (lv_nextPage (\<lambda>d. 0) (lv_init 30)) = ''modified_at''"
    by (simp add: lv_nextPage_def lv_init_def)
  show ?thesis
    using p q by (simp add: lv_commit_def lv_deps_changed_def lv_headerClick_def)
qed


subsection \<open>The sort handler\<close>

text \<open>
  Claim C3, as the code has it.  A click on the header of the current sort column keeps
  the column and flips the direction, so that two clicks restore it; this holds in
  \<open>ContactTable\<close>, \<open>Meetings\<close> and \<open>ListView\<close>.  A click on another column makes it the sort
  column, with direction ascending in \<open>ContactTable\<close> and \<open>Meetings\<close>, and with direction
  descending in \<open>ListView\<close>.
\<close>

theorem C3_sort_toggle:
  "(ct_sortField s = Some f \<longrightarrow>
      ct_sortField (ct_handleSort f s) = Some f \<and>
      ct_sortDirection (ct_handleSort f s) = (if ct_sortDirection s = Asc then Desc else Asc) \<and>
      ct_sortDirection (ct_handleSort f (ct_handleSort f s)) = ct_sortDirection s) \<and>
   (ct_sortField s \<noteq> Some f \<longrightarrow>
      ct_sortField (ct_handleSort f s) = Some f \<and> ct_sortDirection (ct_handleSort f s) = Asc) \<and>
   (mt_sortColumn m = col \<longrightarrow>
      mt_sortColumn (mt_handleSort col m) = col \<and>
      mt_sortDirection (mt_handleSort col m) = (if mt_sortDirection m = Asc then Desc else Asc) \<and>
      mt_sortDirection (mt_handleSort col (mt_handleSort col m)) = mt_sortDirection m) \<and>
   (mt_sortColumn m \<noteq> col \<longrightarrow>
      mt_sortColumn (mt_handleSort col m) = col \<and> mt_sortDirection (mt_handleSort col m) = Asc) \<and>
   (lv_sortBy l = g \<longrightarrow>
      lv_sortBy (lv_headerClick g l) = g \<and>
      lv_sortOrder (lv_headerClick g l) = (if lv_sortOrder l = Asc then Desc else Asc) \<and>
      lv_sortOrder (lv_headerClick g (lv_headerClick g l)) = lv_sortOrder l) \<and>
   (lv_sortBy l \<noteq> g \<longrightarrow>
      lv_sortBy (lv_headerClick g l) = g \<and> lv_sortOrder (lv_headerClick g l) = Desc)"
  by (cases "ct_sortDirection s"; cases "mt_sortDirection m"; cases "lv_sortOrder l")
     (simp_all add: ct_handleSort_def mt_handleSort_def lv_headerClick_def)

text \<open>The theorem at work: three clicks on \<open>email\<close> in a contact table that was not
  sorted, two on \<open>date\<close> in the meetings page, and clicks on \<open>stage\<close> and on the current
  column \<open>modified_at\<close> in the deals list, which starts sorted by \<open>modified_at\<close>,
  descending.\<close>

theorem C3_sort_toggle_witness:
  "ct_sortField (ct_handleSort ''email'' (ct_loaded 3)) = Some ''email'' \<and>
   ct_sortDirection (ct_handleSort ''email'' (ct_loaded 3)) = Asc \<and>
   ct_sortDirection (ct_handleSort ''email'' (ct_handleSort ''email'' (ct_loaded 3))) = Desc \<and>
   ct_sortDirection (ct_handleSort ''email''
      (ct_handleSort ''email'' (ct_handleSort ''email'' (ct_loaded 3)))) = Asc \<and>
   mt_sortColumn (mt_handleSort (Some Date) mt_init) = Some Date \<and>
   mt_sortDirection (mt_handleSort (Some Date) mt_init) = Asc \<and>
   mt_sortDirection (mt_handleSort (Some Date) (mt_handleSort (Some Date) mt_init)) = Desc \<and>
   lv_sortOrder (lv_headerClick ''stage'' (lv_init 3)) = Desc \<and>
   lv_sortOrder (lv_headerClick ''stage'' (lv_headerClick ''stage'' (lv_init 3))) = Asc \<and>
   lv_sortOrder (lv_headerClick ''modified_at'' (lv_init 3)) = Asc"
proof -
  let ?s1 = "ct_handleSort ''email'' (ct_loaded 3)"
  let ?m1 = "mt_handleSort (Some Date) mt_init"
  let ?l1 = "lv_headerClick ''stage'' (lv_init 3)"
  have c0: "ct_sortField (ct_loaded 3) \<noteq> Some ''email''" by (simp add: ct_loaded_fields)
  have m0: "mt_sortColumn mt_init \<noteq> Some Date" by (simp add: mt_init_def)
  have l0: "lv_sortBy (lv_init 3) \<noteq> ''stage''" by (simp add: lv_init_def)
  have l1: "lv_sortBy (lv_init 3) = ''modified_at''" "lv_sortOrder (lv_init 3) = Desc"
    by (simp_all add: lv_init_def)
  note A = C3_sort_toggle[where s = "ct_loaded 3" and f = "''email''" and m = mt_init
      and col = "Some Date" and l = "lv_init 3" and g = "''stage''"]
  note B = C3_sort_toggle[where s = ?s1 and f = "''email''" and m = ?m1
      and col = "Some Date" and l = ?l1 and g = "''stage''"]
  note C = C3_sort_toggle[where s = "ct_loaded 3" and f = "''email''" and m = mt_init
      and col = "Some Date" and l = "lv_init 3" and g = "''modified_at''"]
  show ?thesis
    using A B C c0 m0 l0 l1 by auto
qed

text \<open>Claim C3 as stated fails in \<open>ListView\<close>: the deals list is sorted by \<open>modified_at\<close>;
  a click on the header of \<open>stage\<close>, another column, sets the direction to descending,
  not ascending.\<close>

theorem C3_new_column_ascending_counterexample:
  "lv_sortBy (lv_init 3) \<noteq> ''stage'' \<and>
   lv_sortBy (lv_headerClick ''stage'' (lv_init 3)) = ''stage'' \<and>
   lv_sortOrder (lv_headerClick ''stage'' (lv_init 3)) = Desc \<and>
   lv_sortOrder (lv_headerClick ''stage'' (lv_init 3)) \<noteq> Asc"
  by (simp add: lv_headerClick_def lv_init_def)


subsection \<open>The header checkbox\<close>

text \<open>In \<open>Meetings\<close> the indicator is what claim C4 says: the page is not empty and the id
  of every visible row is selected.\<close>

lemma isAllSelected_iff:
  "isAllSelected m = (paginatedMeetings m \<noteq> [] \<and>
     m_id ` set (paginatedMeetings m) \<subseteq> set (mt_selectedMeetings m))"
  by (auto simp: isAllSelected_def list_all_iff)

text \<open>
  Claim C4 at a failing input.  In \<open>ContactTable\<close> the header checkbox compares counts:
  27 contacts are fetched, the rows \<open>c0\<close> and \<open>c1\<close> are ticked on page 1, \<open>Next\<close> leads to
  page 2, whose rows are \<open>c25\<close> and \<open>c26\<close>.  The selection has as many ids as the page has
  rows, so the checkbox is checked, although no visible row is selected.  In \<open>ListView\<close>,
  over 30 deals, select-all on page 1 selects all 30 ids; the page has 25 rows, all of
  them selected, and the checkbox is not checked.
\<close>

theorem C4_header_checkbox_by_count:
  "ct_selectedContacts (ct_nextPage (ct_handleSelectContact ''c1'' True
      (ct_handleSelectContact ''c0'' True (ct_loaded 27)))) = [''c0'', ''c1''] \<and>
   map c_id (ct_pageContacts (ct_nextPage (ct_handleSelectContact ''c1'' True
      (ct_handleSelectContact ''c0'' True (ct_loaded 27))))) = [''c25'', ''c26''] \<and>
   ct_headerChecked (ct_nextPage (ct_handleSelectContact ''c1'' True
      (ct_handleSelectContact ''c0'' True (ct_loaded 27)))) \<and>
   length (paginatedDeals (\<lambda>d. 0) (lv_handleSelectAll (\<lambda>d. 0) True (lv_init 30))) = 25 \<and>
   d_id ` set (paginatedDeals (\<lambda>d. 0) (lv_handleSelectAll (\<lambda>d. 0) True (lv_init 30)))
     \<subseteq> lv_selectedDeals (lv_handleSelectAll (\<lambda>d. 0) True (lv_init 30)) \<and>
   \<not> lv_headerChecked (\<lambda>d. 0) (lv_handleSelectAll (\<lambda>d. 0) True (lv_init 30))"
proof -
  let ?s = "ct_nextPage (ct_handleSelectContact ''c1'' True
      (ct_handleSelectContact ''c0'' True (ct_loaded 27)))"
  let ?l = "lv_handleSelectAll (\<lambda>d. 0) True (lv_init 30)"
  have len: "length (example_contacts 27) = 27"
    by (simp add: example_contacts_def)
  have sel: "ct_selectedContacts ?s = [''c0'', ''c1'']"
    by (simp add: ct_nextPage_def ct_handleSelectContact_def ct_loaded_fields)
  have fil: "ct_filteredContacts ?s = example_contacts 27"
    by (simp add: ct_nextPage_def ct_handleSelectContact_def ct_filtered_loaded)
  have size: "ct_itemsPerPage ?s = 25"
    by (simp add: ct_nextPage_def ct_handleSelectContact_def ct_loaded_fields)
  have page: "ct_currentPage ?s = 2"
    by (simp add: ct_nextPage_def ct_totalPages_def ct_handleSelectContact_def
        ct_filtered_loaded ct_loaded_fields len ceil_div_def)
  have win: "ct_pageContacts ?s = [example_contact 25, example_contact 26]"
    unfolding ct_pageContacts_def ct_startIndex_def fil size page
    by (simp add: js_slice_def example_contacts_def drop_map take_map)
  have ids: "map c_id (ct_pageContacts ?s) = [''c25'', ''c26'']"
    by (simp add: win example_ids nat_toString.simps digit_char_def)
  have chk: "ct_headerChecked ?s"
    by (simp add: ct_headerChecked_def sel win)
  have same: "filteredAndSortedDeals (\<lambda>d. 0) ?l = filteredAndSortedDeals (\<lambda>d. 0) (lv_init 30)"
  proof -
    have "deal_matches ?l = deal_matches (lv_init 30)"
      by (rule ext) (simp add: lv_handleSelectAll_def deal_matches_def)
    then show ?thesis
      by (simp add: filteredAndSortedDeals_def) (simp add: lv_handleSelectAll_def)
  qed
  have win2: "paginatedDeals (\<lambda>d. 0) ?l = take 25 (filteredAndSortedDeals (\<lambda>d. 0) (lv_init 30))"
    unfolding paginatedDeals_def same
    by (simp add: lv_handleSelectAll_def js_slice_0) (simp add: lv_init_def js_slice_0)
  have len2: "length (paginatedDeals (\<lambda>d. 0) ?l) = 25"
    by (simp add: win2 length_deals_init)
  have sel2: "lv_selectedDeals ?l = d_id ` set (filteredAndSortedDeals (\<lambda>d. 0) (lv_init 30))"
    by (simp add: lv_handleSelectAll_def)
  have sub: "d_id ` set (paginatedDeals (\<lambda>d. 0) ?l) \<subseteq> lv_selectedDeals ?l"
    unfolding win2 sel2 by (meson image_mono set_take_subset)
  have sel3: "lv_selectedDeals ?l = set (map d_id (map example_deal [0..<30]))"
    by (simp add: sel2 deals_init image_image)
  have "card (set (map d_id (map example_deal [0..<30]))) = 30"
    by code_simp
  then have card: "card (lv_selectedDeals ?l) = 30"
    by (simp only: sel3)
  have nchk: "\<not> lv_headerChecked (\<lambda>d. 0) ?l"
    by (simp add: lv_headerChecked_def card len2)
  show ?thesis
    using sel ids chk len2 sub nchk by blast
qed


subsection \<open>Bulk delete of contacts and meetings\<close>

text \<open>
  Claim C5, for the bulk delete of \<open>ContactTable\<close> and of \<open>Meetings\<close>.  With a non-empty
  selection the handler issues exactly one delete, \<open>delete().in('id', selected)\<close>.  When
  that call succeeds, the table has lost exactly the rows whose id is selected and every
  other table is as before; the selection is then cleared (in \<open>ContactTable\<close> after the
  awaited audit call, provided that call returns).  When the call fails, the selection
  and the store are as before.
\<close>

theorem C5_bulk_delete:
  "(ct_selectedContacts s \<noteq> [] \<longrightarrow>
      filter is_delete (drop (length (w_calls w)) (w_calls (snd (ct_handleBulkDelete s w))))
        = [DeleteIn ''contacts'' ''id'' (ct_selectedContacts s)] \<and>
      (w_failing w (DeleteIn ''contacts'' ''id'' (ct_selectedContacts s)) = None \<longrightarrow>
         w_db (snd (ct_handleBulkDelete s w)) = (w_db w)(''contacts'' :=
            filter (\<lambda>r. \<not> col_in ''id'' (ct_selectedContacts s) r) (w_db w ''contacts'')) \<and>
         (w_auditRejects w = None \<longrightarrow>
            ct_selectedContacts (fst (ct_handleBulkDelete s w)) = [])) \<and>
      (w_failing w (DeleteIn ''contacts'' ''id'' (ct_selectedContacts s)) \<noteq> None \<longrightarrow>
         ct_selectedContacts (fst (ct_handleBulkDelete s w)) = ct_selectedContacts s \<and>
         w_db (snd (ct_handleBulkDelete s w)) = w_db w)) \<and>
   (mt_selectedMeetings m \<noteq> [] \<longrightarrow>
      filter is_delete (drop (length (w_calls w)) (w_calls (snd (mt_handleBulkDelete m w))))
        = [DeleteIn ''meetings'' ''id'' (mt_selectedMeetings m)] \<and>
      (w_failing w (DeleteIn ''meetings'' ''id'' (mt_selectedMeetings m)) = None \<longrightarrow>
         w_db (snd (mt_handleBulkDelete m w)) = (w_db w)(''meetings'' :=
            filter (\<lambda>r. \<not> col_in ''id'' (mt_selectedMeetings m) r) (w_db w ''meetings'')) \<and>
         mt_selectedMeetings (fst (mt_handleBulkDelete m w)) = []) \<and>
      (w_failing w (DeleteIn ''meetings'' ''id'' (mt_selectedMeetings m)) \<noteq> None \<longrightarrow>
         mt_selectedMeetings (fst (mt_handleBulkDelete m w)) = mt_selectedMeetings m \<and>
         w_db (snd (mt_handleBulkDelete m w)) = w_db w))"
proof -
  have ct: "ct_selectedContacts s \<noteq> [] \<longrightarrow>
      filter is_delete (drop (length (w_calls w)) (w_calls (snd (ct_handleBulkDelete s w))))
        = [DeleteIn ''contacts'' ''id'' (ct_selectedContacts s)] \<and>
      (w_failing w (DeleteIn ''contacts'' ''id'' (ct_selectedContacts s)) = None \<longrightarrow>
         w_db (snd (ct_handleBulkDelete s w)) = (w_db w)(''contacts'' :=
            filter (\<lambda>r. \<not> col_in ''id'' (ct_selectedContacts s) r) (w_db w ''contacts'')) \<and>
         (w_auditRejects w = None \<longrightarrow>
            ct_selectedContacts (fst (ct_handleBulkDelete s w)) = [])) \<and>
      (w_failing w (DeleteIn ''contacts'' ''id'' (ct_selectedContacts s)) \<noteq> None \<longrightarrow>
         ct_selectedContacts (fst (ct_handleBulkDelete s w)) = ct_selectedContacts s \<and>
         w_db (snd (ct_handleBulkDelete s w)) = w_db w)"
    by (auto simp: ct_handleBulkDelete_def ct_fetchContacts_def thrown_after_def Let_def
        split_beta issue_delete_simps issue_select_simps call_hits_fun split: option.splits)
  have mt: "mt_selectedMeetings m \<noteq> [] \<longrightarrow>
      filter is_delete (drop (length (w_calls w)) (w_calls (snd (mt_handleBulkDelete m w))))
        = [DeleteIn ''meetings'' ''id'' (mt_selectedMeetings m)] \<and>
      (w_failing w (DeleteIn ''meetings'' ''id'' (mt_selectedMeetings m)) = None \<longrightarrow>
         w_db (snd (mt_handleBulkDelete m w)) = (w_db w)(''meetings'' :=
            filter (\<lambda>r. \<not> col_in ''id'' (mt_selectedMeetings m) r) (w_db w ''meetings'')) \<and>
         mt_selectedMeetings (fst (mt_handleBulkDelete m w)) = []) \<and>
      (w_failing w (DeleteIn ''meetings'' ''id'' (mt_selectedMeetings m)) \<noteq> None \<longrightarrow>
         mt_selectedMeetings (fst (mt_handleBulkDelete m w)) = mt_selectedMeetings m \<and>
         w_db (snd (mt_handleBulkDelete m w)) = w_db w)"
    by (auto simp: mt_handleBulkDelete_def mt_fetchMeetings_def Let_def
        split_beta issue_delete_simps issue_select_simps call_hits_fun split: option.splits)
  from ct mt show ?thesis by blast
qed

text \<open>The theorem at work on the example store, which holds the contacts \<open>c0\<close>, \<open>c1\<close>,
  \<open>c2\<close> and the meetings \<open>m0\<close>, \<open>m1\<close>, \<open>m2\<close>: with \<open>c0\<close>, \<open>c2\<close> and \<open>m0\<close>, \<open>m1\<close> ticked, a
  bulk delete that succeeds leaves \<open>c1\<close> and \<open>m2\<close> and an empty selection; one that fails
  leaves the selection.\<close>

theorem C5_bulk_delete_witness:
  "ct_selectedContacts (fst (ct_handleBulkDelete
      (ct_handleSelectContact ''c2'' True (ct_handleSelectContact ''c0'' True (ct_loaded 3)))
      (example_world no_failure))) = [] \<and>
   w_db (snd (ct_handleBulkDelete
      (ct_handleSelectContact ''c2'' True (ct_handleSelectContact ''c0'' True (ct_loaded 3)))
      (example_world no_failure))) ''contacts'' = [[(''id'', ''c1'')]] \<and>
   filter is_delete (w_calls (snd (ct_handleBulkDelete
      (ct_handleSelectContact ''c2'' True (ct_handleSelectContact ''c0'' True (ct_loaded 3)))
      (example_world no_failure)))) = [DeleteIn ''contacts'' ''id'' [''c0'', ''c2'']] \<and>
   ct_selectedContacts (fst (ct_handleBulkDelete
      (ct_handleSelectContact ''c2'' True (ct_handleSelectContact ''c0'' True (ct_loaded 3)))
      (example_world deletes_fail))) = [''c0'', ''c2''] \<and>
   mt_selectedMeetings (fst (mt_handleBulkDelete
      (mt_handleSelectMeeting ''m1'' True (mt_handleSelectMeeting ''m0'' True mt_init))
      (example_world no_failure))) = [] \<and>
   w_db (snd (mt_handleBulkDelete
      (mt_handleSelectMeeting ''m1'' True (mt_handleSelectMeeting ''m0'' True mt_init))
      (example_world no_failure))) ''meetings'' = [[(''id'', ''m2'')]] \<and>
   mt_selectedMeetings (fst (mt_handleBulkDelete
      (mt_handleSelectMeeting ''m1'' True (mt_handleSelectMeeting ''m0'' True mt_init))
      (example_world deletes_fail))) = [''m0'', ''m1'']"
proof -
  let ?s = "ct_handleSelectContact ''c2'' True (ct_handleSelectContact ''c0'' True (ct_loaded 3))"
  let ?m = "mt_handleSelectMeeting ''m1'' True (mt_handleSelectMeeting ''m0'' True mt_init)"
  have s: "ct_selectedContacts ?s = [''c0'', ''c2'']"
    by (simp add: ct_handleSelectContact_def ct_loaded_fields)
  have m: "mt_selectedMeetings ?m = [''m0'', ''m1'']"
    by (simp add: mt_handleSelectMeeting_def mt_init_def)
  have ok: "w_failing (example_world no_failure) c = None"
    "w_auditRejects (example_world no_failure) = None"
    "w_calls (example_world no_failure) = []"
    "w_db (example_world no_failure) = example_db" for c
    by (simp_all add: example_world_def no_failure_def)
  have ko: "w_failing (example_world deletes_fail) (DeleteIn t c vs) \<noteq> None" for t c vs
    by (simp add: example_world_def deletes_fail_def)
  have dbc: "filter (\<lambda>r. \<not> col_in ''id'' [''c0'', ''c2''] r) (example_db ''contacts'')
      = [[(''id'', ''c1'')]]"
    by (simp add: example_db_def col_in_def)
  have dbm: "filter (\<lambda>r. \<not> col_in ''id'' [''m0'', ''m1''] r) (example_db ''meetings'')
      = [[(''id'', ''m2'')]]"
    by (simp add: example_db_def col_in_def)
  note A = C5_bulk_delete[where s = ?s and m = ?m and w = "example_world no_failure"]
  note B = C5_bulk_delete[where s = ?s and m = ?m and w = "example_world deletes_fail"]
  show ?thesis
    using A B ko by (simp add: s m ok dbc dbm)
qed


subsection \<open>Deleting accounts\<close>

lemma filter_not_Nil_iff: "(filter P xs \<noteq> []) = list_ex P xs"
  by (auto simp: filter_empty_conv list_ex_iff)

lemma has_rows_limit1:
  "has_rows (Some (take (Suc 0) (filter P xs))) = list_ex P xs"
  by (simp add: has_rows_def filter_not_Nil_iff)

text \<open>When both look-ups of \<open>handleDelete\<close> come back with data, the guard is what
  claim C6 says: an account with a linked contact or lead is refused, no delete is
  issued, the store is as before.\<close>

lemma at_handleDelete_refuses_linked:
  assumes a: "at_accountToDelete s = Some acc" and b: "a_id acc \<noteq> []"
    and c: "w_failing w (SelectEqLimit ''contacts'' ''account_id'' (a_id acc) 1) = None"
    and d: "w_failing w (SelectEqLimit ''leads'' ''account_id'' (a_id acc) 1) = None"
    and e: "list_ex (\<lambda>r. map_of r ''account_id'' = Some (a_id acc)) (w_db w ''contacts'') \<or>
         list_ex (\<lambda>r. map_of r ''account_id'' = Some (a_id acc)) (w_db w ''leads'')"
  shows "filter is_delete (drop (length (w_calls w)) (w_calls (snd (at_handleDelete s w)))) = [] \<and>
         w_db (snd (at_handleDelete s w)) = w_db w \<and>
         at_toasts (fst (at_handleDelete s w)) = at_toasts s @ [(''Cannot Delete'',
            ''This account has linked contacts or leads. Please unlink them first.'')]"
proof -
  let ?c1 = "SelectEqLimit ''contacts'' ''account_id'' (a_id acc) 1"
  let ?c2 = "SelectEqLimit ''leads'' ''account_id'' (a_id acc) 1"
  have h: "has_rows (fst (issue_select ?c1 w)) \<or>
           has_rows (fst (issue_select ?c2 (snd (issue_select ?c1 w))))"
    using c d e by (simp add: issue_select_simps call_hits_fun has_rows_limit1)
  have r: "at_handleDelete s w =
      (s\<lparr> at_toasts := at_toasts s @ [(''Cannot Delete'',
            ''This account has linked contacts or leads. Please unlink them first.'')],
          at_showDeleteDialog := False \<rparr>,
       snd (issue_select ?c2 (snd (issue_select ?c1 w))))"
    using a b h by (simp add: at_handleDelete_def Let_def split_beta)
  show ?thesis
    by (simp add: r issue_select_simps)
qed

text \<open>Likewise for \<open>handleBulkDelete\<close>: when both look-ups come back with data, the one
  delete it issues names exactly the selected ids without a linked contact or lead, and
  it issues none when every selected account is linked.\<close>

lemma linked_iff:
  "i \<in> set sel \<Longrightarrow>
   (Some i \<in> set (account_ids_of (Some (filter (col_in ''account_id'' sel) rows))))
      = list_ex (\<lambda>r. map_of r ''account_id'' = Some i) rows"
  by (force simp: account_ids_of_def col_in_def list_ex_iff image_iff)


lemma at_handleBulkDelete_screens:
  assumes a: "at_selectedAccounts s \<noteq> []"
    and b: "w_failing w (SelectIn ''contacts'' ''account_id'' (at_selectedAccounts s)) = None"
    and c: "w_failing w (SelectIn ''leads'' ''account_id'' (at_selectedAccounts s)) = None"
  shows "filter is_delete (drop (length (w_calls w)) (w_calls (snd (at_handleBulkDelete s w))))
     = (let unlinked = filter (\<lambda>i.
              \<not> list_ex (\<lambda>r. map_of r ''account_id'' = Some i) (w_db w ''contacts'') \<and>
              \<not> list_ex (\<lambda>r. map_of r ''account_id'' = Some i) (w_db w ''leads''))
            (at_selectedAccounts s)
        in if unlinked = [] then [] else [DeleteIn ''accounts'' ''id'' unlinked])"
proof -
  let ?sel = "at_selectedAccounts s"
  let ?c1 = "SelectIn ''contacts'' ''account_id'' ?sel"
  let ?c2 = "SelectIn ''leads'' ''account_id'' ?sel"
  let ?w2 = "snd (issue_select ?c2 (snd (issue_select ?c1 w)))"
  let ?unlinked = "filter (\<lambda>i.
              \<not> list_ex (\<lambda>r. map_of r ''account_id'' = Some i) (w_db w ''contacts'') \<and>
              \<not> list_ex (\<lambda>r. map_of r ''account_id'' = Some i) (w_db w ''leads'')) ?sel"
  have r1: "fst (issue_select ?c1 w) = Some (filter (col_in ''account_id'' ?sel) (w_db w ''contacts''))"
    using b by (simp add: issue_select_simps call_hits_fun)
  have r2: "fst (issue_select ?c2 (snd (issue_select ?c1 w)))
      = Some (filter (col_in ''account_id'' ?sel) (w_db w ''leads''))"
    using c by (simp add: issue_select_simps call_hits_fun)
  have f: "filter (\<lambda>i. Some i \<notin> set (account_ids_of (fst (issue_select ?c1 w)) @
              account_ids_of (fst (issue_select ?c2 (snd (issue_select ?c1 w)))))) ?sel
      = ?unlinked"
    unfolding r1 r2 by (rule filter_cong) (auto simp: linked_iff)
  have calls2: "w_calls ?w2 = w_calls w @ [?c1, ?c2]"
    by (simp add: issue_select_simps)
  show ?thesis
  proof (cases "?unlinked = []")
    case True
    then have "snd (at_handleBulkDelete s w) = ?w2"
      using a f by (simp add: at_handleBulkDelete_def Let_def split_beta)
    then show ?thesis
      using True by (simp add: calls2 Let_def)
  next
    case False
    then have "\<exists>post. w_calls (snd (at_handleBulkDelete s w))
        = w_calls ?w2 @ DeleteIn ''accounts'' ''id'' ?unlinked # post \<and>
          list_all (\<lambda>c. \<not> is_delete c) post"
      using a f
      by (auto simp: at_handleBulkDelete_def at_fetchAccounts_def Let_def split_beta
          issue_select_simps issue_delete_simps split: option.splits)
    then show ?thesis
      using False by (auto simp: calls2 Let_def filter_empty_conv list_all_iff)
  qed
qed

text \<open>
  Claim C6 at a failing input.  The example store holds the account \<open>A1\<close>, to which the
  contact \<open>c0\<close> is linked, and the account \<open>A2\<close>.  The look-ups on the contacts table come
  back with an error, so with \<open>data = null\<close>, which neither handler checks.  The single
  delete of \<open>A1\<close> then issues the delete on the accounts table, and \<open>A1\<close> is gone while
  \<open>c0\<close> still points to it; the bulk delete of \<open>A1\<close> and \<open>A2\<close> deletes both and reports two
  deleted, none skipped.  With look-ups that succeed, the same inputs are refused, and
  screened to \<open>A2\<close> with the summary of one deleted and one skipped.
\<close>

theorem C6_failed_lookup_deletes_linked_account:
  "filter (\<lambda>r. map_of r ''account_id'' = Some ''A1'') (example_db ''contacts'')
     = [[(''id'', ''c0''), (''account_id'', ''A1'')]] \<and>
   w_calls (snd (at_handleDelete at_example (example_world contact_lookups_fail))) =
     [SelectEqLimit ''contacts'' ''account_id'' ''A1'' 1,
      SelectEqLimit ''leads'' ''account_id'' ''A1'' 1,
      DeleteEq ''accounts'' ''id'' ''A1'',
      SelectAll ''accounts''] \<and>
   w_db (snd (at_handleDelete at_example (example_world contact_lookups_fail))) ''accounts''
     = [[(''id'', ''A2'')]] \<and>
   w_db (snd (at_handleDelete at_example (example_world contact_lookups_fail))) ''contacts''
     = example_db ''contacts'' \<and>
   w_calls (snd (at_handleBulkDelete at_example (example_world contact_lookups_fail))) =
     [SelectIn ''contacts'' ''account_id'' [''A1'', ''A2''],
      SelectIn ''leads'' ''account_id'' [''A1'', ''A2''],
      DeleteIn ''accounts'' ''id'' [''A1'', ''A2''],
      SelectAll ''accounts''] \<and>
   at_toasts (fst (at_handleBulkDelete at_example (example_world contact_lookups_fail)))
     = [(''Success'', ''Deleted 2 accounts successfully'')] \<and>
   w_calls (snd (at_handleDelete at_example (example_world no_failure))) =
     [SelectEqLimit ''contacts'' ''account_id'' ''A1'' 1,
      SelectEqLimit ''leads'' ''account_id'' ''A1'' 1] \<and>
   w_calls (snd (at_handleBulkDelete at_example (example_world no_failure))) =
     [SelectIn ''contacts'' ''account_id'' [''A1'', ''A2''],
      SelectIn ''leads'' ''account_id'' [''A1'', ''A2''],
      DeleteIn ''accounts'' ''id'' [''A2''],
      SelectAll ''accounts''] \<and>
   at_toasts (fst (at_handleBulkDelete at_example (example_world no_failure)))
     = [(''Success'', ''Deleted 1 accounts. 1 skipped (have linked records).'')]"
  by code_simp


subsection \<open>Select all\<close>





subsection \<open>The sort comparator\<close>

lemma nat_toString_not_Nil: "nat_toString n \<noteq> []"
  by (subst nat_toString.simps) simp

lemma int_toString_not_Nil: "int_toString i \<noteq> []"
  by (simp add: int_toString_def nat_toString_not_Nil)

lemma codeunit_compare_empty_first: "empty_before_numerals codeunit_compare"
proof -
  have "str_lt [] t \<and> \<not> str_lt t []" if "t \<noteq> []" for t
    using that by (cases t) auto
  then show ?thesis
    using int_toString_not_Nil by (auto simp: empty_before_numerals_def codeunit_compare_def)
qed

text \<open>Insertion into a list that is sorted for a total, transitive order \<open>R\<close>, by a
  comparator that decides \<open>R\<close> on the rows at hand, gives a sorted list.\<close>

lemma sorted_wrt_js_insert:
  assumes tr: "\<And>a b c. R a b \<Longrightarrow> R b c \<Longrightarrow> R a c"
    and tot: "\<And>a b. R a b \<or> R b a"
    and cm: "\<And>a b. P a \<Longrightarrow> P b \<Longrightarrow> (cmp a b \<le> 0) = R a b"
  shows "P x \<Longrightarrow> list_all P ys \<Longrightarrow> sorted_wrt R ys \<Longrightarrow> sorted_wrt R (js_insert cmp x ys)"
proof (induction ys)
  case Nil
  then show ?case by simp
next
  case (Cons y ys)
  show ?case
  proof (cases "cmp x y \<le> 0")
    case True
    with Cons.prems have xy: "R x y" by (simp add: cm)
    have "R x z" if "z \<in> set ys" for z
      using that Cons.prems(3) xy tr by auto
    with xy Cons.prems(3) True show ?thesis by auto
  next
    case False
    with Cons.prems have "\<not> R x y" by (simp add: cm)
    then have yx: "R y x" using tot by blast
    have "sorted_wrt R (js_insert cmp x ys)"
      using Cons.IH Cons.prems by simp
    with False yx Cons.prems(3) show ?thesis
      by (auto simp: set_js_insert)
  qed
qed

lemma sorted_wrt_js_sort:
  assumes tr: "\<And>a b c. R a b \<Longrightarrow> R b c \<Longrightarrow> R a c"
    and tot: "\<And>a b. R a b \<or> R b a"
    and cm: "\<And>a b. P a \<Longrightarrow> P b \<Longrightarrow> (cmp a b \<le> 0) = R a b"
  shows "list_all P xs \<Longrightarrow> sorted_wrt R (js_sort cmp xs)"
proof (induction xs)
  case Nil
  then show ?case by (simp add: js_sort_def)
next
  case (Cons x xs)
  have p: "list_all P (js_sort cmp xs)"
    using Cons.prems by (simp add: list_all_iff set_js_sort)
  have "sorted_wrt R (js_insert cmp x (js_sort cmp xs))"
    using sorted_wrt_js_insert[where R = R and P = P and cmp = cmp, OF tr tot cm] p Cons
    by simp
  then show ?case by (simp add: js_sort_def)
qed

lemma falsy_first_trans: "falsy_first k l \<Longrightarrow> falsy_first l m \<Longrightarrow> falsy_first k m"
  by (auto simp: falsy_first_def split: option.splits)

lemma falsy_first_total: "falsy_first k l \<or> falsy_first l k"
  by (auto simp: falsy_first_def split: option.splits)

text \<open>The comparator shared by \<open>ContactTable\<close> and \<open>AccountTable\<close>, on two values that are
  numbers or missing, decides \<open>falsy_first\<close>.\<close>

lemma compare_decides_falsy_first:
  assumes lc: "empty_before_numerals lc"
    and a: "numeric_or_missing u" and b: "numeric_or_missing v"
  shows "((case (or_empty u, or_empty v) of
            (JNum x, JNum y) \<Rightarrow> x - y
          | _ \<Rightarrow> lc (js_toString (or_empty u)) (js_toString (or_empty v))) \<le> 0)
         = falsy_first (num_key u) (num_key v)"
proof -
  have e: "lc [] [] \<le> 0" "lc [] (int_toString n) < 0" "0 < lc (int_toString n) []" for n
    using lc by (auto simp: empty_before_numerals_def)
  show ?thesis
  proof (cases u)
    case JUndefined
    then show ?thesis
      using b e by (cases v) (auto simp: or_empty_def num_key_def falsy_first_def
          numeric_or_missing_def order.strict_implies_order)
  next
    case (JNum x)
    then show ?thesis
      using b e
      by (cases v) (auto simp: or_empty_def num_key_def falsy_first_def
          numeric_or_missing_def order.strict_implies_order not_le)
  qed (use a in \<open>auto simp: numeric_or_missing_def\<close>)
qed

lemma compare_Asc:
  "contact_compare lc f Asc a b =
     (case (or_empty (contact_get a f), or_empty (contact_get b f)) of
        (JNum x, JNum y) \<Rightarrow> x - y
      | _ \<Rightarrow> lc (js_toString (or_empty (contact_get a f))) (js_toString (or_empty (contact_get b f))))"
  "account_compare lc f Asc p q =
     (case (or_empty (account_get p f), or_empty (account_get q f)) of
        (JNum x, JNum y) \<Rightarrow> x - y
      | _ \<Rightarrow> lc (js_toString (or_empty (account_get p f))) (js_toString (or_empty (account_get q f))))"
  by (simp_all add: contact_compare_def account_compare_def Let_def split: jsval.splits)

lemma contact_compare_decides:
  "empty_before_numerals lc \<Longrightarrow> numeric_or_missing (contact_get a f) \<Longrightarrow>
   numeric_or_missing (contact_get b f) \<Longrightarrow>
   (contact_compare lc f Asc a b \<le> 0)
     = falsy_first (num_key (contact_get a f)) (num_key (contact_get b f))"
  using compare_decides_falsy_first[of lc "contact_get a f" "contact_get b f"]
  by (simp only: compare_Asc)

lemma account_compare_decides:
  "empty_before_numerals lc \<Longrightarrow> numeric_or_missing (account_get a f) \<Longrightarrow>
   numeric_or_missing (account_get b f) \<Longrightarrow>
   (account_compare lc f Asc a b \<le> 0)
     = falsy_first (num_key (account_get a f)) (num_key (account_get b f))"
  using compare_decides_falsy_first[of lc "account_get a f" "account_get b f"]
  by (simp only: compare_Asc)

lemma contact_sort_numeric:
  assumes lc: "empty_before_numerals lc"
    and rows: "list_all (\<lambda>c. numeric_or_missing (contact_get c f)) rows"
  shows "sorted_wrt (\<lambda>a b. falsy_first (num_key (contact_get a f)) (num_key (contact_get b f)))
           (js_sort (contact_compare lc f Asc) rows)"
proof (rule sorted_wrt_js_sort[where P = "\<lambda>c. numeric_or_missing (contact_get c f)"])
  show "falsy_first (num_key (contact_get a f)) (num_key (contact_get c f))"
    if "falsy_first (num_key (contact_get a f)) (num_key (contact_get b f))"
      and "falsy_first (num_key (contact_get b f)) (num_key (contact_get c f))" for a b c
    using that by (rule falsy_first_trans)
  show "falsy_first (num_key (contact_get a f)) (num_key (contact_get b f)) \<or>
        falsy_first (num_key (contact_get b f)) (num_key (contact_get a f))" for a b
    by (rule falsy_first_total)
  show "(contact_compare lc f Asc a b \<le> 0)
      = falsy_first (num_key (contact_get a f)) (num_key (contact_get b f))"
    if "numeric_or_missing (contact_get a f)" and "numeric_or_missing (contact_get b f)" for a b
    using lc that by (rule contact_compare_decides)
  show "list_all (\<lambda>c. numeric_or_missing (contact_get c f)) rows"
    by (rule rows)
qed

lemma account_sort_numeric:
  assumes lc: "empty_before_numerals lc"
    and rows: "list_all (\<lambda>c. numeric_or_missing (account_get c f)) rows"
  shows "sorted_wrt (\<lambda>a b. falsy_first (num_key (account_get a f)) (num_key (account_get b f)))
           (js_sort (account_compare lc f Asc) rows)"
proof (rule sorted_wrt_js_sort[where P = "\<lambda>c. numeric_or_missing (account_get c f)"])
  show "falsy_first (num_key (account_get a f)) (num_key (account_get c f))"
    if "falsy_first (num_key (account_get a f)) (num_key (account_get b f))"
      and "falsy_first (num_key (account_get b f)) (num_key (account_get c f))" for a b c
    using that by (rule falsy_first_trans)
  show "falsy_first (num_key (account_get a f)) (num_key (account_get b f)) \<or>
        falsy_first (num_key (account_get b f)) (num_key (account_get a f))" for a b
    by (rule falsy_first_total)
  show "(account_compare lc f Asc a b \<le> 0)
      = falsy_first (num_key (account_get a f)) (num_key (account_get b f))"
    if "numeric_or_missing (account_get a f)" and "numeric_or_missing (account_get b f)" for a b
    using lc that by (rule account_compare_decides)
  show "list_all (\<lambda>c. numeric_or_missing (account_get c f)) rows"
    by (rule rows)
qed

text \<open>On numbers that are not negative the two tables order as the specification
  words it: with a missing value counting as zero, the ascending sort is in numeric
  order.\<close>

lemma falsy_first_spec_num_value:
  "nonnegative_or_missing u \<Longrightarrow> nonnegative_or_missing v \<Longrightarrow>
   falsy_first (num_key u) (num_key v) \<Longrightarrow> spec_num_value u \<le> spec_num_value v"
  by (cases u; cases v)
     (auto simp: nonnegative_or_missing_def num_key_def or_empty_def falsy_first_def
        spec_num_value_def split: if_splits)

lemma nonnegative_numeric: "nonnegative_or_missing v \<Longrightarrow> numeric_or_missing v"
  by (cases v) (auto simp: nonnegative_or_missing_def numeric_or_missing_def)

lemma contact_sort_nonnegative:
  assumes lc: "empty_before_numerals lc"
    and rows: "list_all (\<lambda>c. nonnegative_or_missing (contact_get c f)) rows"
  shows "sorted_wrt (\<lambda>a b. spec_num_value (contact_get a f) \<le> spec_num_value (contact_get b f))
           (js_sort (contact_compare lc f Asc) rows)"
proof -
  have n: "list_all (\<lambda>c. numeric_or_missing (contact_get c f)) rows"
    using rows by (auto simp: list_all_iff nonnegative_numeric)
  have m: "nonnegative_or_missing (contact_get c f)"
    if "c \<in> set (js_sort (contact_compare lc f Asc) rows)" for c
    using that rows by (simp add: set_js_sort list_all_iff)
  show ?thesis
    by (rule sorted_wrt_mono_rel[OF _ contact_sort_numeric[OF lc n]])
       (auto intro: falsy_first_spec_num_value m)
qed

lemma account_sort_nonnegative:
  assumes lc: "empty_before_numerals lc"
    and rows: "list_all (\<lambda>c. nonnegative_or_missing (account_get c f)) rows"
  shows "sorted_wrt (\<lambda>a b. spec_num_value (account_get a f) \<le> spec_num_value (account_get b f))
           (js_sort (account_compare lc f Asc) rows)"
proof -
  have n: "list_all (\<lambda>c. numeric_or_missing (account_get c f)) rows"
    using rows by (auto simp: list_all_iff nonnegative_numeric)
  have m: "nonnegative_or_missing (account_get c f)"
    if "c \<in> set (js_sort (account_compare lc f Asc) rows)" for c
    using that rows by (simp add: set_js_sort list_all_iff)
  show ?thesis
    by (rule sorted_wrt_mono_rel[OF _ account_sort_numeric[OF lc n]])
       (auto intro: falsy_first_spec_num_value m)
qed

text \<open>
  Claim C8 at a failing input.  Two contacts have the annual revenues \<open>0\<close> and \<open>-3\<close>, both
  present numbers; the rows are sorted by \<open>annual_revenue\<close>, ascending.  The comparator
  of \<open>ContactTable\<close> reads each value through \<open>|| ''\<close>, which turns the \<open>0\<close> into the empty
  string; the pair is then no pair of numbers, and instead of the subtraction
  \<open>0 - (-3) = 3\<close> the result is the collation of \<open>''\<close> with \<open>-3\<close>, whatever the collation
  \<open>lc\<close> is.  The same holds for a missing revenue, which the claim has sort as zero, and
  for the comparator of \<open>AccountTable\<close> on \<open>total_revenue\<close>.  The empty string collates
  first, so the sort leaves \<open>0\<close> before \<open>-3\<close>.  The comparator of \<open>ListView\<close>, which reads
  numeric fields through \<open>|| 0\<close>, puts \<open>-3\<close> first on the same values.
\<close>

theorem C8_zero_and_missing_compared_as_text:
  "contact_compare lc ''annual_revenue'' Asc
      (revenue_contact 0 (Some 0)) (revenue_contact 1 (Some (- 3))) = lc [] ''-3'' \<and>
   contact_compare lc ''annual_revenue'' Asc
      (revenue_contact 0 None) (revenue_contact 1 (Some (- 3))) = lc [] ''-3'' \<and>
   account_compare lc ''total_revenue'' Asc
      (revenue_account ''A1'' (Some 0)) (revenue_account ''A2'' (Some (- 3))) = lc [] ''-3'' \<and>
   account_compare lc ''total_revenue'' Asc
      (revenue_account ''A1'' None) (revenue_account ''A2'' (Some (- 3))) = lc [] ''-3'' \<and>
   spec_numeric_compare Asc (Some 0) (Some (- 3)) = 3 \<and>
   spec_numeric_compare Asc None (Some (- 3)) = 3 \<and>
   codeunit_compare [] ''-3'' = - 1 \<and>
   map c_annual_revenue (js_sort (contact_compare codeunit_compare ''annual_revenue'' Asc)
      [revenue_contact 1 (Some (- 3)), revenue_contact 0 (Some 0)]) = [Some 0, Some (- 3)] \<and>
   map a_total_revenue (js_sort (account_compare codeunit_compare ''total_revenue'' Asc)
      [revenue_account ''A2'' (Some (- 3)), revenue_account ''A1'' None]) = [None, Some (- 3)] \<and>
   deal_compare (\<lambda>d. 0) ''total_revenue'' Asc
      (revenue_deal 0 (Some 0)) (revenue_deal 1 (Some (- 3))) = 1 \<and>
   deal_compare (\<lambda>d. 0) ''total_revenue'' Asc
      (revenue_deal 0 None) (revenue_deal 1 (Some (- 3))) = 1"
proof -
  have g: "contact_get (revenue_contact i r) ''annual_revenue'' = of_num r"
    "account_get (revenue_account j r) ''total_revenue'' = of_num r" for i j r
    by (simp_all add: contact_get_def account_get_def revenue_contact_def
        revenue_account_def)
  have t: "int_toString (- 3) = ''-3''"
    by code_simp
  have c: "contact_compare lc ''annual_revenue'' Asc
      (revenue_contact 0 (Some 0)) (revenue_contact 1 (Some (- 3))) = lc [] ''-3''"
    "contact_compare lc ''annual_revenue'' Asc
      (revenue_contact 0 None) (revenue_contact 1 (Some (- 3))) = lc [] ''-3''"
    by (simp_all add: compare_Asc g of_num_def or_empty_def t)
  have a: "account_compare lc ''total_revenue'' Asc
      (revenue_account ''A1'' (Some 0)) (revenue_account ''A2'' (Some (- 3))) = lc [] ''-3''"
    "account_compare lc ''total_revenue'' Asc
      (revenue_account ''A1'' None) (revenue_account ''A2'' (Some (- 3))) = lc [] ''-3''"
    by (simp_all add: compare_Asc g of_num_def or_empty_def t)
  have s: "spec_numeric_compare Asc (Some 0) (Some (- 3)) = 3"
    "spec_numeric_compare Asc None (Some (- 3)) = 3"
    "codeunit_compare [] ''-3'' = - 1"
    by (simp_all add: spec_numeric_compare_def codeunit_compare_def)
  have r1: "map c_annual_revenue (js_sort (contact_compare codeunit_compare ''annual_revenue'' Asc)
      [revenue_contact 1 (Some (- 3)), revenue_contact 0 (Some 0)]) = [Some 0, Some (- 3)]"
    by code_simp
  have r2: "map a_total_revenue (js_sort (account_compare codeunit_compare ''total_revenue'' Asc)
      [revenue_account ''A2'' (Some (- 3)), revenue_account ''A1'' None]) = [None, Some (- 3)]"
    by code_simp
  have d: "deal_compare (\<lambda>d. 0) ''total_revenue'' Asc
      (revenue_deal 0 (Some 0)) (revenue_deal 1 (Some (- 3))) = 1"
    "deal_compare (\<lambda>d. 0) ''total_revenue'' Asc
      (revenue_deal 0 None) (revenue_deal 1 (Some (- 3))) = 1"
    by code_simp+
  from c a s r1 r2 d show ?thesis
    by blast
qed

subsection \<open>Bulk delete of leads\<close>

text \<open>The calls \<open>handleBulkDelete\<close> of the lead table issues with
  \<open>deleteLinkedRecords = true\<close>, in order.\<close>

lemma lt_deleteLinked_calls:
  "w_calls (lt_deleteLinked sel w) = w_calls w @
     [DeleteIn ''notifications'' ''lead_id'' sel, SelectIn ''lead_action_items'' ''lead_id'' sel] @
     (if w_failing w (SelectIn ''lead_action_items'' ''lead_id'' sel) = None \<and>
         filter (col_in ''lead_id'' sel) (w_db w ''lead_action_items'') \<noteq> []
      then [DeleteIn ''notifications'' ''action_item_id''
              (List.map_filter (\<lambda>r. map_of r ''id'')
                 (filter (col_in ''lead_id'' sel) (w_db w ''lead_action_items'')))]
      else []) @
     [DeleteIn ''lead_action_items'' ''lead_id'' sel]"
  by (simp add: lt_deleteLinked_def Let_def split_beta issue_delete_simps issue_select_simps call_hits_fun
      has_rows_def action_item_ids_def)

lemma lt_handleBulkDelete_calls:
  "lt_selectedLeads s \<noteq> [] \<Longrightarrow>
   \<exists>post. w_calls (snd (lt_handleBulkDelete True s w)) =
     w_calls (lt_deleteLinked (lt_selectedLeads s) w) @
     DeleteIn ''leads'' ''id'' (lt_selectedLeads s) # post \<and> list_all (\<lambda>c. \<not> is_delete c) post"
  by (auto simp: lt_handleBulkDelete_def lt_fetchLeads_def Let_def split_beta
      issue_delete_simps issue_select_simps call_hits_fun split: option.splits)

text \<open>The order of the calls.  With a non-empty selection and
  \<open>deleteLinkedRecords = true\<close>, the calls the handler issues are \<open>pre\<close>, then the delete of
  the selected leads, then \<open>post\<close>, where \<open>pre\<close> holds the delete of the notifications of
  all selected leads and the delete of the action items of all selected leads, and, when
  the look-up of those action items came back with rows, the delete of their
  notifications; \<open>pre\<close> has no call on the leads table and \<open>post\<close> has no delete at all.\<close>

lemma lt_handleBulkDelete_order:
  "lt_selectedLeads s \<noteq> [] \<longrightarrow>
     (\<exists>pre post.
        drop (length (w_calls w)) (w_calls (snd (lt_handleBulkDelete True s w)))
          = pre @ DeleteIn ''leads'' ''id'' (lt_selectedLeads s) # post \<and>
        DeleteIn ''notifications'' ''lead_id'' (lt_selectedLeads s) \<in> set pre \<and>
        DeleteIn ''lead_action_items'' ''lead_id'' (lt_selectedLeads s) \<in> set pre \<and>
        (if w_failing w (SelectIn ''lead_action_items'' ''lead_id'' (lt_selectedLeads s)) = None \<and>
            filter (col_in ''lead_id'' (lt_selectedLeads s)) (w_db w ''lead_action_items'') \<noteq> []
         then DeleteIn ''notifications'' ''action_item_id''
                (List.map_filter (\<lambda>r. map_of r ''id'')
                   (filter (col_in ''lead_id'' (lt_selectedLeads s)) (w_db w ''lead_action_items'')))
              \<in> set pre
         else True) \<and>
        list_all (\<lambda>c. call_table c \<noteq> ''leads'') pre \<and>
        list_all (\<lambda>c. \<not> is_delete c) post)"
proof
  assume ne: "lt_selectedLeads s \<noteq> []"
  let ?sel = "lt_selectedLeads s"
  let ?pre = "drop (length (w_calls w)) (w_calls (lt_deleteLinked ?sel w))"
  from lt_handleBulkDelete_calls[OF ne, of w] obtain post where
    p: "w_calls (snd (lt_handleBulkDelete True s w)) =
        w_calls (lt_deleteLinked ?sel w) @ DeleteIn ''leads'' ''id'' ?sel # post"
    and q: "list_all (\<lambda>c. \<not> is_delete c) post"
    by blast
  have le: "length (w_calls w) \<le> length (w_calls (lt_deleteLinked ?sel w))"
    by (simp add: lt_deleteLinked_calls)
  have d: "drop (length (w_calls w)) (w_calls (snd (lt_handleBulkDelete True s w)))
      = ?pre @ DeleteIn ''leads'' ''id'' ?sel # post"
    using le by (simp add: p)
  have pre: "?pre =
     [DeleteIn ''notifications'' ''lead_id'' ?sel, SelectIn ''lead_action_items'' ''lead_id'' ?sel] @
     (if w_failing w (SelectIn ''lead_action_items'' ''lead_id'' ?sel) = None \<and>
         filter (col_in ''lead_id'' ?sel) (w_db w ''lead_action_items'') \<noteq> []
      then [DeleteIn ''notifications'' ''action_item_id''
              (List.map_filter (\<lambda>r. map_of r ''id'')
                 (filter (col_in ''lead_id'' ?sel) (w_db w ''lead_action_items'')))]
      else []) @
     [DeleteIn ''lead_action_items'' ''lead_id'' ?sel]"
    by (simp add: lt_deleteLinked_calls)
  have a: "DeleteIn ''notifications'' ''lead_id'' ?sel \<in> set ?pre"
    "DeleteIn ''lead_action_items'' ''lead_id'' ?sel \<in> set ?pre"
    "list_all (\<lambda>c. call_table c \<noteq> ''leads'') ?pre"
    by (simp_all add: pre)
  have b: "if w_failing w (SelectIn ''lead_action_items'' ''lead_id'' ?sel) = None \<and>
            filter (col_in ''lead_id'' ?sel) (w_db w ''lead_action_items'') \<noteq> []
         then DeleteIn ''notifications'' ''action_item_id''
                (List.map_filter (\<lambda>r. map_of r ''id'')
                   (filter (col_in ''lead_id'' ?sel) (w_db w ''lead_action_items'')))
              \<in> set ?pre
         else True"
    by (simp add: pre)
  from d a b q show "\<exists>pre post.
        drop (length (w_calls w)) (w_calls (snd (lt_handleBulkDelete True s w)))
          = pre @ DeleteIn ''leads'' ''id'' ?sel # post \<and>
        DeleteIn ''notifications'' ''lead_id'' ?sel \<in> set pre \<and>
        DeleteIn ''lead_action_items'' ''lead_id'' ?sel \<in> set pre \<and>
        (if w_failing w (SelectIn ''lead_action_items'' ''lead_id'' ?sel) = None \<and>
            filter (col_in ''lead_id'' ?sel) (w_db w ''lead_action_items'') \<noteq> []
         then DeleteIn ''notifications'' ''action_item_id''
                (List.map_filter (\<lambda>r. map_of r ''id'')
                   (filter (col_in ''lead_id'' ?sel) (w_db w ''lead_action_items'')))
              \<in> set pre
         else True) \<and>
        list_all (\<lambda>c. call_table c \<noteq> ''leads'') pre \<and>
        list_all (\<lambda>c. \<not> is_delete c) post"
    by blast
qed

text \<open>
  Claim C9 at a failing input.  The example store holds the leads \<open>L1\<close>, \<open>L2\<close>, \<open>L3\<close>, the
  action items \<open>I1\<close> of \<open>L1\<close> and \<open>I2\<close> of \<open>L3\<close>, and the notifications \<open>N1\<close> and \<open>N3\<close> of the
  leads and \<open>N2\<close> of the action item \<open>I1\<close>.  The three leads are selected and
  \<open>deleteLinkedRecords\<close> is true.  The look-up of the action items comes back with an
  error, so with \<open>data = null\<close>, which the handler does not check: no delete of the
  notifications of the action items is issued, the action items and the leads are
  deleted all the same, \<open>N2\<close> stays behind and the toast reports success.  With a look-up
  that succeeds, the same input issues that delete, for \<open>I1\<close> and \<open>I2\<close>, before the delete
  of the leads, and no notification is left.
\<close>

theorem C9_failed_lookup_leaves_notifications:
  "w_calls (snd (lt_handleBulkDelete True lt_example (example_world action_item_lookups_fail))) =
     [DeleteIn ''notifications'' ''lead_id'' [''L1'', ''L2'', ''L3''],
      SelectIn ''lead_action_items'' ''lead_id'' [''L1'', ''L2'', ''L3''],
      DeleteIn ''lead_action_items'' ''lead_id'' [''L1'', ''L2'', ''L3''],
      DeleteIn ''leads'' ''id'' [''L1'', ''L2'', ''L3''],
      SelectAll ''leads''] \<and>
   w_db (snd (lt_handleBulkDelete True lt_example (example_world action_item_lookups_fail)))
      ''notifications'' = [[(''id'', ''N2''), (''action_item_id'', ''I1'')]] \<and>
   w_db (snd (lt_handleBulkDelete True lt_example (example_world action_item_lookups_fail)))
      ''lead_action_items'' = [] \<and>
   w_db (snd (lt_handleBulkDelete True lt_example (example_world action_item_lookups_fail)))
      ''leads'' = [] \<and>
   lt_toasts (fst (lt_handleBulkDelete True lt_example (example_world action_item_lookups_fail)))
     = [(''Success'', ''Deleted 3 leads successfully'')] \<and>
   w_calls (snd (lt_handleBulkDelete True lt_example (example_world no_failure))) =
     [DeleteIn ''notifications'' ''lead_id'' [''L1'', ''L2'', ''L3''],
      SelectIn ''lead_action_items'' ''lead_id'' [''L1'', ''L2'', ''L3''],
      DeleteIn ''notifications'' ''action_item_id'' [''I1'', ''I2''],
      DeleteIn ''lead_action_items'' ''lead_id'' [''L1'', ''L2'', ''L3''],
      DeleteIn ''leads'' ''id'' [''L1'', ''L2'', ''L3''],
      SelectAll ''leads''] \<and>
   w_db (snd (lt_handleBulkDelete True lt_example (example_world no_failure)))
      ''notifications'' = []"
  by code_simp

subsection \<open>Changing the page size\<close>

text \<open>
  Claim C10.  The page-size selector only stores the new size: the page size is in no
  dependency array, so no effect runs and \<open>currentPage\<close> keeps its value, in
  \<open>ContactTable\<close>, \<open>TaskListView\<close> and \<open>ListView\<close>.  Nothing clamps \<open>currentPage\<close> to the new
  number of pages.  An example: 30 contacts are fetched, \<open>Next\<close> leads to page 2 of 2, the
  page size is set to 100; the current page is still 2, all 30 rows are filtered rows, and
  the page window \<open>slice(100, 200)\<close> is empty.
\<close>

theorem C10_page_size_change_keeps_page:
  "ct_currentPage (ct_commit lc s (ct_setItemsPerPage n s)) = ct_currentPage s \<and>
   tl_currentPage (tl_commit t (tl_setItemsPerPage n t)) = tl_currentPage t \<and>
   lv_currentPage (lv_commit l (lv_setItemsPerPage n l)) = lv_currentPage l \<and>
   ct_currentPage (ct_nextPage (ct_loaded 30)) = 2 \<and>
   ct_currentPage (ct_commit codeunit_compare (ct_nextPage (ct_loaded 30))
       (ct_setItemsPerPage 100 (ct_nextPage (ct_loaded 30)))) = 2 \<and>
   length (ct_filteredContacts (ct_commit codeunit_compare (ct_nextPage (ct_loaded 30))
       (ct_setItemsPerPage 100 (ct_nextPage (ct_loaded 30))))) = 30 \<and>
   ct_pageContacts (ct_commit codeunit_compare (ct_nextPage (ct_loaded 30))
       (ct_setItemsPerPage 100 (ct_nextPage (ct_loaded 30)))) = []"
proof -
  have a: "ct_commit lc' s' (ct_setItemsPerPage n' s') = s'\<lparr> ct_itemsPerPage := n' \<rparr>"
    for lc' s' n'
    by (simp add: ct_commit_def ct_deps_changed_def ct_setItemsPerPage_def)
  have b: "tl_commit t (tl_setItemsPerPage n t) = t\<lparr> tl_itemsPerPage := n \<rparr>"
    by (simp add: tl_commit_def tl_deps_changed_def tl_setItemsPerPage_def)
  have c: "lv_commit l (lv_setItemsPerPage n l) = l\<lparr> lv_itemsPerPage := n \<rparr>"
    by (simp add: lv_commit_def lv_deps_changed_def lv_setItemsPerPage_def)
  have len: "length (example_contacts 30) = 30"
    by (simp add: example_contacts_def)
  have d: "ct_currentPage (ct_nextPage (ct_loaded 30)) = 2"
    by (simp add: ct_nextPage_def ct_totalPages_def ct_filtered_loaded ct_loaded_fields
        len ceil_div_def)
  have e: "ct_filteredContacts (ct_nextPage (ct_loaded 30)) = example_contacts 30"
    by (simp add: ct_nextPage_def ct_filtered_loaded)
  have f: "ct_pageContacts ((ct_nextPage (ct_loaded 30))\<lparr> ct_itemsPerPage := 100 \<rparr>) = []"
    by (simp add: ct_pageContacts_def ct_startIndex_def d e len js_slice_def)
  show ?thesis
    by (simp add: a b c d e f len)
qed

text \<open>The theorem at work: on page 2 of 30 contacts and of 30 deals, choosing the
  page size 10 leaves the current page at 2.\<close>

theorem C10_page_size_change_keeps_page_witness:
  "ct_currentPage (ct_commit codeunit_compare (ct_nextPage (ct_loaded 30))
       (ct_setItemsPerPage 10 (ct_nextPage (ct_loaded 30)))) = 2 \<and>
   lv_currentPage (lv_commit (lv_nextPage (\<lambda>d. 0) (lv_init 30))
       (lv_setItemsPerPage 10 (lv_nextPage (\<lambda>d. 0) (lv_init 30)))) = 2"
proof -
  have p: "lv_currentPage (lv_nextPage (\<lambda>d. 0) (lv_init 30)) = 2"
    by (simp add: lv_nextPage_def length_deals_init ceil_div_def) (simp add: lv_init_def)
  from C10_page_size_change_keeps_page[where lc = codeunit_compare
      and s = "ct_nextPage (ct_loaded 30)" and n = 10 and l = "lv_nextPage (\<lambda>d. 0) (lv_init 30)"]
  show ?thesis
    by (simp add: p)
qed


end
